theory Spec2Isabelle
  imports Main "HOL-Library.Word"
begin

section \<open>Values of the host language\<close>

text \<open>
  A JavaScript string is a sequence of UTF-16 code units; a \<open>Blob\<close> is a sequence of bytes.
  String literals of the source are ASCII and are written through \<open>ustr\<close>.
\<close>

type_synonym code_unit = "16 word"
type_synonym jsstring = "code_unit list"
type_synonym blob = "8 word list"

definition ustr :: "string \<Rightarrow> jsstring" where
  "ustr s = map of_char s"

text \<open>
  \<open>String.prototype.trim\<close> removes white space and line terminators from both ends:
  TAB, LF, VT, FF, CR, SPACE, NBSP, the other space separators of Unicode, LS, PS and the
  byte order mark.
\<close>

definition whitespace_units :: "code_unit list" where
  "whitespace_units =
     [0x9, 0xA, 0xB, 0xC, 0xD, 0x20, 0xA0, 0x1680,
      0x2000, 0x2001, 0x2002, 0x2003, 0x2004, 0x2005, 0x2006, 0x2007, 0x2008, 0x2009, 0x200A,
      0x2028, 0x2029, 0x202F, 0x205F, 0x3000, 0xFEFF]"

definition is_whitespace :: "code_unit \<Rightarrow> bool" where
  "is_whitespace c = (c \<in> set whitespace_units)"

definition trim :: "jsstring \<Rightarrow> jsstring" where
  "trim s = rev (dropWhile is_whitespace (rev (dropWhile is_whitespace s)))"

text \<open>
  Truthiness of a value of type \<open>string | null | undefined\<close>: absent values and the
  empty string are falsy.
\<close>

definition truthy :: "jsstring option \<Rightarrow> bool" where
  "truthy v = (case v of None \<Rightarrow> False | Some s \<Rightarrow> s \<noteq> [])"

text \<open>
  \<open>generateId()\<close> reads the clock and the random number generator, and \<open>new Date()\<close>
  reads the clock. The model receives what they return: a \<open>fresh\<close> value is the pair of the
  generated id and the time stamp of one call of \<open>addMessage\<close>.
\<close>

type_synonym fresh = "jsstring \<times> nat"


section \<open>Messages (context/ChatContext.tsx)\<close>

datatype MessageRole = User | Assistant | System

record Message =
  id_msg :: jsstring
  role :: MessageRole
  content :: jsstring
  timestamp :: nat
  isLoading_msg :: "bool option"
  imageUrl :: "jsstring option"
  audioUrl :: "jsstring option"
  audioLoading :: "bool option"

text \<open>
  \<open>Partial<Message>\<close>: every field may be present or not. \<open>{ ...msg, ...updates }\<close>
  takes each field from \<open>updates\<close> where it is present and from \<open>msg\<close> otherwise.
\<close>

record Updates =
  new_id :: "jsstring option"
  new_role :: "MessageRole option"
  new_content :: "jsstring option"
  new_timestamp :: "nat option"
  new_isLoading :: "bool option"
  new_imageUrl :: "jsstring option"
  new_audioUrl :: "jsstring option"
  new_audioLoading :: "bool option"

definition no_updates :: Updates where
  "no_updates = \<lparr>new_id = None, new_role = None, new_content = None, new_timestamp = None,
     new_isLoading = None, new_imageUrl = None, new_audioUrl = None, new_audioLoading = None\<rparr>"

definition spread :: "Message \<Rightarrow> Updates \<Rightarrow> Message" where
  "spread msg updates =
     \<lparr>id_msg = (case new_id updates of None \<Rightarrow> id_msg msg | Some v \<Rightarrow> v),
      role = (case new_role updates of None \<Rightarrow> role msg | Some v \<Rightarrow> v),
      content = (case new_content updates of None \<Rightarrow> content msg | Some v \<Rightarrow> v),
      timestamp = (case new_timestamp updates of None \<Rightarrow> timestamp msg | Some v \<Rightarrow> v),
      isLoading_msg = (case new_isLoading updates of None \<Rightarrow> isLoading_msg msg | Some v \<Rightarrow> Some v),
      imageUrl = (case new_imageUrl updates of None \<Rightarrow> imageUrl msg | Some v \<Rightarrow> Some v),
      audioUrl = (case new_audioUrl updates of None \<Rightarrow> audioUrl msg | Some v \<Rightarrow> Some v),
      audioLoading = (case new_audioLoading updates of None \<Rightarrow> audioLoading msg | Some v \<Rightarrow> Some v)\<rparr>"

text \<open>The fixed texts of the source.\<close>

definition thinking :: jsstring where
  "thinking = ustr ''Thinking...''"

definition audio_message :: jsstring where
  "audio_message = ustr ''Audio message''"

definition transcribing_audio :: jsstring where
  "transcribing_audio = ustr ''Transcribing audio...''"

definition analyzing_image :: jsstring where
  "analyzing_image = ustr ''Analyzing image...''"

definition sorry_request :: jsstring where
  "sorry_request = ustr ''Sorry, I encountered an error processing your request. Please try again.''"

definition sorry_audio :: jsstring where
  "sorry_audio = ustr ''Sorry, I encountered an error processing your audio. Please try again.''"

definition sorry_image :: jsstring where
  "sorry_image = ustr ''Sorry, I encountered an error analyzing your image. Please try again.''"


section \<open>Requests to the collaborators (services/api.ts)\<close>

text \<open>
  What reaches a collaborator: the chat request carries the message and the conversation id
  (possibly \<open>null\<close>) beside constant fields; the form of the vision request carries the
  conversation id only when it is truthy.
\<close>

datatype Request =
    ChatRequest jsstring "jsstring option"
  | TranscribeRequest blob
  | SynthesizeRequest jsstring
  | AnalyzeRequest blob jsstring "jsstring option"

definition sendMessage :: "jsstring \<Rightarrow> jsstring option \<Rightarrow> Request" where
  "sendMessage message conversation_id = ChatRequest message conversation_id"

definition transcribeAudio :: "blob \<Rightarrow> Request" where
  "transcribeAudio audioBlob = TranscribeRequest audioBlob"

definition synthesizeSpeech :: "jsstring \<Rightarrow> Request" where
  "synthesizeSpeech txt = SynthesizeRequest txt"

definition analyzeImage :: "blob \<Rightarrow> jsstring \<Rightarrow> jsstring option \<Rightarrow> Request" where
  "analyzeImage imageBlob prompt conversation_id =
     AnalyzeRequest imageBlob prompt (if truthy conversation_id then conversation_id else None)"

text \<open>\<open>conversationId || undefined\<close>\<close>

definition or_undefined :: "jsstring option \<Rightarrow> jsstring option" where
  "or_undefined v = (if truthy v then v else None)"


section \<open>The provider's state and its suspended calls\<close>

text \<open>
  The audio element of the browser, as far as the provider observes it: its source and
  whether it is paused. Assigning \<open>src\<close> loads the new source, which leaves the element
  paused; \<open>play()\<close> either starts playback (the element fires \<open>play\<close>) or is refused by the
  browser (the promise rejects and the source only logs it); \<open>pause()\<close> pauses (the
  element fires \<open>pause\<close>); at the end of the source the element is paused again and fires
  \<open>ended\<close>.
\<close>

record HTMLAudioElement =
  src :: jsstring
  paused :: bool

text \<open>
  A function of the provider is a closure over the values of the render that created it.
  \<open>Render\<close> holds the ones the functions read: \<open>conversationId\<close>, \<open>isMuted\<close>,
  \<open>audioPlaying\<close>, and whether \<open>audioElement\<close> is set. An asynchronous function keeps its
  closure across every \<open>await\<close>.
\<close>

record Render =
  conversationId_r :: "jsstring option"
  isMuted_r :: bool
  audioElement_r :: bool
  audioPlaying_r :: bool

text \<open>
  \<open>playTextAsAudio\<close> is awaited at the end of a dispatch, whose \<open>finally\<close> block then
  releases the busy flag, or it is called directly through the context.
\<close>

datatype Caller = Dispatch | Direct

text \<open>
  A call suspended at an \<open>await\<close>, or a handler waiting for its event, with what it still
  needs: its closure and the ids of the messages it will patch.
  \<^item> \<open>TextGenerate r loadingId\<close>: \<open>sendTextMessage\<close> at \<open>chatService.sendMessage\<close>;
  \<^item> \<open>AudioTranscribe r userId loadingId\<close>: \<open>sendAudioMessage\<close> at \<open>voiceService.transcribeAudio\<close>;
  \<^item> \<open>AudioGenerate r loadingId\<close>: \<open>sendAudioMessage\<close> at \<open>chatService.sendMessage\<close>;
  \<^item> \<open>ImageAnalyze r loadingId\<close>: \<open>sendImageMessage\<close> at \<open>visionService.analyzeImage\<close>;
  \<^item> \<open>Synthesize r caller messageId\<close>: \<open>playTextAsAudio\<close> at \<open>voiceService.synthesizeSpeech\<close>;
  \<^item> \<open>Recording r\<close>: the \<open>onstop\<close> handler that \<open>handleStartRecording\<close> of the input component
    gave the media recorder; it holds the \<open>onSendAudio\<close> of the render in which the recording
    was started, that is the \<open>sendAudioMessage\<close> with closure \<open>r\<close>;
  \<^item> \<open>ImageFetch r imagePrompt\<close>: \<open>handleSendImage\<close> of the input component at
    \<open>fetch(capturedImage)\<close> and \<open>response.blob()\<close>; it holds the prompt and the \<open>onSendImage\<close>
    of the render in which Send was clicked.
\<close>

datatype Suspended =
    TextGenerate Render jsstring
  | AudioTranscribe Render jsstring jsstring
  | AudioGenerate Render jsstring
  | ImageAnalyze Render jsstring
  | Synthesize Render Caller "jsstring option"
  | Recording Render
  | ImageFetch Render jsstring

text \<open>
  The six state cells of \<open>ChatProvider\<close>, then the model's account of the outside: the
  calls that are suspended and the requests sent so far, in order.
\<close>

record ChatProvider =
  messages :: "Message list"
  conversationId :: "jsstring option"
  isLoading :: bool
  audioElement :: "HTMLAudioElement option"
  isMuted :: bool
  audioPlaying :: bool
  pending :: "Suspended list"
  sent :: "Request list"

definition init :: ChatProvider where
  "init = \<lparr>messages = [], conversationId = None, isLoading = False, audioElement = None,
     isMuted = False, audioPlaying = False, pending = [], sent = []\<rparr>"

definition render :: "ChatProvider \<Rightarrow> Render" where
  "render w = \<lparr>conversationId_r = conversationId w, isMuted_r = isMuted w,
     audioElement_r = (audioElement w \<noteq> None), audioPlaying_r = audioPlaying w\<rparr>"

text \<open>The effect of \<open>ChatProvider\<close>: it creates the audio element and stores it.\<close>

definition mount :: "ChatProvider \<Rightarrow> ChatProvider" where
  "mount w = w\<lparr>audioElement := Some \<lparr>src = [], paused = True\<rparr>\<rparr>"

text \<open>\<open>audioElement.pause()\<close> with the \<open>onpause\<close> handler.\<close>

definition pause :: "ChatProvider \<Rightarrow> ChatProvider" where
  "pause w =
     (case audioElement w of
        None \<Rightarrow> w
      | Some a \<Rightarrow>
          if paused a then w
          else w\<lparr>audioElement := Some (a\<lparr>paused := True\<rparr>), audioPlaying := False\<rparr>)"

text \<open>\<open>audioElement.src = audioUrl\<close>\<close>

definition assign_src :: "jsstring \<Rightarrow> ChatProvider \<Rightarrow> ChatProvider" where
  "assign_src url w =
     (case audioElement w of
        None \<Rightarrow> w
      | Some a \<Rightarrow> w\<lparr>audioElement := Some (a\<lparr>src := url, paused := True\<rparr>)\<rparr>)"

text \<open>
  \<open>audioElement.play().catch(...)\<close> with the \<open>onplay\<close> handler; \<open>allowed\<close> says whether
  the browser starts playback.
\<close>

definition play :: "bool \<Rightarrow> ChatProvider \<Rightarrow> ChatProvider" where
  "play allowed w =
     (case audioElement w of
        None \<Rightarrow> w
      | Some a \<Rightarrow>
          if allowed then w\<lparr>audioElement := Some (a\<lparr>paused := False\<rparr>), audioPlaying := True\<rparr>
          else w)"

text \<open>The end of the source: the element is paused and the \<open>onended\<close> handler runs.\<close>

definition ended :: "ChatProvider \<Rightarrow> ChatProvider" where
  "ended w =
     (case audioElement w of
        None \<Rightarrow> w
      | Some a \<Rightarrow>
          if paused a then w
          else w\<lparr>audioElement := Some (a\<lparr>paused := True\<rparr>), audioPlaying := False\<rparr>)"


section \<open>The functions of the provider\<close>

definition stopAudio :: "Render \<Rightarrow> ChatProvider \<Rightarrow> ChatProvider" where
  "stopAudio r w = (if audioElement_r r then (pause w)\<lparr>audioPlaying := False\<rparr> else w)"

definition toggleMute :: "Render \<Rightarrow> ChatProvider \<Rightarrow> ChatProvider" where
  "toggleMute r w =
     (let newMuted = \<not> isMuted w;
          w1 = (if newMuted \<and> audioPlaying_r r then stopAudio r w else w)
      in w1\<lparr>isMuted := newMuted\<rparr>)"

definition addMessage ::
  "fresh \<Rightarrow> MessageRole \<Rightarrow> jsstring \<Rightarrow> bool \<Rightarrow> jsstring option \<Rightarrow> jsstring option \<Rightarrow> bool option
     \<Rightarrow> ChatProvider \<Rightarrow> ChatProvider" where
  "addMessage f role' content' isLoading' imageUrl' audioUrl' audioLoading' w =
     w\<lparr>messages := messages w @
        [\<lparr>id_msg = fst f, role = role', content = content', timestamp = snd f,
          isLoading_msg = Some isLoading', imageUrl = imageUrl', audioUrl = audioUrl',
          audioLoading = audioLoading'\<rparr>]\<rparr>"

definition updateMessage :: "jsstring \<Rightarrow> Updates \<Rightarrow> ChatProvider \<Rightarrow> ChatProvider" where
  "updateMessage i updates w =
     w\<lparr>messages := map (\<lambda>msg. if id_msg msg = i then spread msg updates else msg) (messages w)\<rparr>"

text \<open>\<open>if (messageId) updateMessage(messageId, updates)\<close>\<close>

definition updateIfId :: "jsstring option \<Rightarrow> Updates \<Rightarrow> ChatProvider \<Rightarrow> ChatProvider" where
  "updateIfId messageId updates w =
     (case messageId of
        None \<Rightarrow> w
      | Some i \<Rightarrow> if i = [] then w else updateMessage i updates w)"

text \<open>
  What follows the return of \<open>playTextAsAudio\<close>: in a dispatch the \<open>finally\<close> block,
  \<open>setIsLoading(false)\<close>; nothing after a direct call.
\<close>

definition returned :: "Caller \<Rightarrow> ChatProvider \<Rightarrow> ChatProvider" where
  "returned k w = (case k of Dispatch \<Rightarrow> w\<lparr>isLoading := False\<rparr> | Direct \<Rightarrow> w)"

text \<open>\<open>playTextAsAudio\<close> up to its \<open>await\<close>.\<close>

definition playTextAsAudio ::
  "Render \<Rightarrow> Caller \<Rightarrow> jsstring \<Rightarrow> jsstring option \<Rightarrow> ChatProvider \<Rightarrow> ChatProvider" where
  "playTextAsAudio r k txt messageId w =
     (if audioElement_r r \<and> \<not> isMuted_r r then
        (let w1 = updateIfId messageId (no_updates\<lparr>new_audioLoading := Some True\<rparr>) w
         in w1\<lparr>sent := sent w1 @ [synthesizeSpeech txt],
               pending := pending w1 @ [Synthesize r k messageId]\<rparr>)
      else returned k w)"

text \<open>\<open>sendTextMessage\<close> up to its \<open>await\<close>.\<close>

definition sendTextMessage ::
  "Render \<Rightarrow> jsstring \<Rightarrow> fresh \<Rightarrow> fresh \<Rightarrow> ChatProvider \<Rightarrow> ChatProvider" where
  "sendTextMessage r txt fu fa w =
     (if trim txt = [] then w
      else
        (let w1 = addMessage fu User txt False None None None (w\<lparr>isLoading := True\<rparr>);
             w2 = addMessage fa Assistant thinking True None None (Some False) w1
         in w2\<lparr>sent := sent w2 @ [sendMessage txt (conversationId_r r)],
               pending := pending w2 @ [TextGenerate r (fst fa)]\<rparr>))"

text \<open>
  \<open>sendAudioMessage\<close> up to its first \<open>await\<close>; \<open>url\<close> is what
  \<open>URL.createObjectURL(audioBlob)\<close> returns.
\<close>

definition sendAudioMessage ::
  "Render \<Rightarrow> blob \<Rightarrow> jsstring \<Rightarrow> fresh \<Rightarrow> fresh \<Rightarrow> ChatProvider \<Rightarrow> ChatProvider" where
  "sendAudioMessage r audioBlob url fu fa w =
     (let w1 = addMessage fu User audio_message False None (Some url) None (w\<lparr>isLoading := True\<rparr>);
          w2 = addMessage fa Assistant transcribing_audio True None None None w1
      in w2\<lparr>sent := sent w2 @ [transcribeAudio audioBlob],
            pending := pending w2 @ [AudioTranscribe r (fst fu) (fst fa)]\<rparr>)"

text \<open>
  \<open>sendImageMessage\<close> up to its \<open>await\<close>; \<open>url\<close> is what
  \<open>URL.createObjectURL(imageBlob)\<close> returns.
\<close>

definition sendImageMessage ::
  "Render \<Rightarrow> blob \<Rightarrow> jsstring \<Rightarrow> jsstring \<Rightarrow> fresh \<Rightarrow> fresh \<Rightarrow> ChatProvider \<Rightarrow> ChatProvider" where
  "sendImageMessage r imageBlob prompt url fu fa w =
     (let w1 = addMessage fu User prompt False (Some url) None None (w\<lparr>isLoading := True\<rparr>);
          w2 = addMessage fa Assistant analyzing_image True None None None w1
      in w2\<lparr>sent := sent w2 @ [analyzeImage imageBlob prompt (or_undefined (conversationId_r r))],
            pending := pending w2 @ [ImageAnalyze r (fst fa)]\<rparr>)"

definition clearConversation :: "Render \<Rightarrow> ChatProvider \<Rightarrow> ChatProvider" where
  "clearConversation r w = stopAudio r (w\<lparr>messages := [], conversationId := None\<rparr>)"

text \<open>
  How an awaited call settles: with the collaborator's response, or by rejecting. The
  synthesized audio comes as the object URL that \<open>synthesizeSpeech\<close> returns, together with
  whether the browser will let it play. \<open>Recorded\<close> is the stop of the media recorder with the
  blob of its chunks, and \<open>Fetched\<close> the blob of the captured image; the dispatch that follows
  at once draws an object URL and two fresh values, of which these carry the URL and the first.
\<close>

datatype Settled =
    ChatResponse jsstring jsstring
  | TranscriptionResponse jsstring
  | ImageAnalysisResponse jsstring jsstring
  | SpeechUrl jsstring bool
  | Recorded blob jsstring fresh
  | Fetched blob jsstring fresh
  | Rejected

text \<open>
  The part of \<open>sendTextMessage\<close>, \<open>sendAudioMessage\<close> and \<open>sendImageMessage\<close> after a
  generation response: bind the conversation id, patch the placeholder, speak.
\<close>

definition generated ::
  "Render \<Rightarrow> jsstring \<Rightarrow> jsstring \<Rightarrow> jsstring \<Rightarrow> ChatProvider \<Rightarrow> ChatProvider" where
  "generated r loadingId reply conversation_id w =
     playTextAsAudio r Dispatch reply (Some loadingId)
       (updateMessage loadingId
          (no_updates\<lparr>new_content := Some reply, new_isLoading := Some False,
             new_audioLoading := Some True\<rparr>)
          (w\<lparr>conversationId := Some conversation_id\<rparr>))"

text \<open>The \<open>catch\<close> and \<open>finally\<close> blocks of a dispatch.\<close>

definition caught :: "fresh \<Rightarrow> jsstring \<Rightarrow> ChatProvider \<Rightarrow> ChatProvider" where
  "caught f apology w = (addMessage f Assistant apology False None None None w)\<lparr>isLoading := False\<rparr>"

text \<open>
  The continuation of a suspended call once its awaited call has settled, run up to the
  next \<open>await\<close> or to the end. \<open>f\<close> is for the message the \<open>catch\<close> block adds, or for the
  placeholder of the dispatch that \<open>onstop\<close> and \<open>handleSendImage\<close> make. \<open>onstop\<close> dispatches
  only a blob that is not empty; \<open>handleSendImage\<close> only logs a fetch that fails. The result
  is \<open>None\<close> when the response is not of the awaited kind.
\<close>

fun resume :: "Suspended \<Rightarrow> Settled \<Rightarrow> fresh \<Rightarrow> ChatProvider \<Rightarrow> ChatProvider option" where
  "resume (TextGenerate r loadingId) (ChatResponse reply cid) f w =
     Some (generated r loadingId reply cid w)"
| "resume (TextGenerate r loadingId) Rejected f w = Some (caught f sorry_request w)"
| "resume (AudioTranscribe r userId loadingId) (TranscriptionResponse transcription) f w =
     (let w1 = updateMessage userId (no_updates\<lparr>new_content := Some transcription\<rparr>) w
      in Some (w1\<lparr>sent := sent w1 @ [sendMessage transcription (conversationId_r r)],
                  pending := pending w1 @ [AudioGenerate r loadingId]\<rparr>))"
| "resume (AudioTranscribe r userId loadingId) Rejected f w = Some (caught f sorry_audio w)"
| "resume (AudioGenerate r loadingId) (ChatResponse reply cid) f w =
     Some (generated r loadingId reply cid w)"
| "resume (AudioGenerate r loadingId) Rejected f w = Some (caught f sorry_audio w)"
| "resume (ImageAnalyze r loadingId) (ImageAnalysisResponse analysis cid) f w =
     Some (generated r loadingId analysis cid w)"
| "resume (ImageAnalyze r loadingId) Rejected f w = Some (caught f sorry_image w)"
| "resume (Synthesize r k messageId) (SpeechUrl audioUrl' allowed) f w =
     (let w1 = updateIfId messageId
                 (no_updates\<lparr>new_audioUrl := Some audioUrl', new_audioLoading := Some False\<rparr>) w;
          w2 = (if isMuted_r r then w1 else play allowed (assign_src audioUrl' w1))
      in Some (returned k w2))"
| "resume (Synthesize r k messageId) Rejected f w =
     Some (returned k (updateIfId messageId (no_updates\<lparr>new_audioLoading := Some False\<rparr>) w))"
| "resume (Recording r) (Recorded audioBlob url fu) f w =
     Some (if audioBlob = [] then w else sendAudioMessage r audioBlob url fu f w)"
| "resume (ImageFetch r imagePrompt) (Fetched imageBlob url fu) f w =
     Some (sendImageMessage r imageBlob imagePrompt url fu f w)"
| "resume (ImageFetch r imagePrompt) Rejected f w = Some w"
| "resume _ _ _ _ = None"


section \<open>The callers in components/chat/ChatInput.tsx\<close>

text \<open>
  The handlers of the input component, as far as they act on the provider: the component's
  own fields (the typed message, the modal) are not part of the model. A handler is of the
  current render when the user triggers it: it reads that render's \<open>isLoading\<close> and holds
  that render's dispatch functions.
\<close>

definition handleSendMessage :: "jsstring \<Rightarrow> fresh \<Rightarrow> fresh \<Rightarrow> ChatProvider \<Rightarrow> ChatProvider" where
  "handleSendMessage message fu fa w =
     (if trim message \<noteq> [] \<and> \<not> isLoading w then sendTextMessage (render w) message fu fa w
      else w)"

text \<open>
  \<open>handleSendImage\<close> as one step: \<open>fetched\<close> is the blob that \<open>fetch(capturedImage)\<close>
  yields, \<open>None\<close> when it rejects, and the fetch settles before any other event.
\<close>

definition handleSendImage ::
  "jsstring option \<Rightarrow> jsstring \<Rightarrow> blob option \<Rightarrow> jsstring \<Rightarrow> fresh \<Rightarrow> fresh
     \<Rightarrow> ChatProvider \<Rightarrow> ChatProvider" where
  "handleSendImage capturedImage imagePrompt fetched url fu fa w =
     (if truthy capturedImage \<and> trim imagePrompt \<noteq> [] then
        (case fetched of
           None \<Rightarrow> w
         | Some imageBlob \<Rightarrow> sendImageMessage (render w) imageBlob imagePrompt url fu fa w)
      else w)"

text \<open>
  \<open>handleSendImage\<close> up to its first \<open>await\<close>, for the sessions in which other events come
  before the fetch settles: the rest of it is the continuation of \<open>ImageFetch\<close>.
\<close>

definition handleSendImage_start :: "jsstring option \<Rightarrow> jsstring \<Rightarrow> ChatProvider \<Rightarrow> ChatProvider" where
  "handleSendImage_start capturedImage imagePrompt w =
     (if truthy capturedImage \<and> trim imagePrompt \<noteq> [] then
        w\<lparr>pending := pending w @ [ImageFetch (render w) imagePrompt]\<rparr>
      else w)"

text \<open>
  \<open>handleStartRecording\<close>, when the browser grants the microphone: it gives the media
  recorder its \<open>onstop\<close> handler. The button that calls it is rendered only when nothing is
  being recorded, and is disabled while \<open>isLoading\<close> is set.
\<close>

fun recording :: "Suspended \<Rightarrow> bool" where
  "recording (Recording r) = True"
| "recording t = False"

definition handleStartRecording :: "ChatProvider \<Rightarrow> ChatProvider" where
  "handleStartRecording w =
     (if \<not> isLoading w \<and> \<not> list_ex recording (pending w) then
        w\<lparr>pending := pending w @ [Recording (render w)]\<rparr>
      else w)"


section \<open>The session as a sequence of events\<close>

text \<open>
  An event is a call of a function of the context, a handler of the input component, the
  settling of a suspended call, or an event of the audio element. \<open>SendText\<close>, \<open>SendAudio\<close>,
  \<open>SendImage\<close> and \<open>PlayText\<close> call the function of the current render, as a consumer of the
  context can. The handlers of the input component call it too (\<open>HandleSendMessage\<close>) or keep
  it for later (\<open>HandleStartRecording\<close>, \<open>HandleSendImage\<close>): the dispatch then runs, when the
  recorder stops or the image is fetched, with the closure of the render in which the handler
  ran. \<open>Settle i\<close> settles the \<open>i\<close>-th suspended call.
\<close>

datatype Event =
    Mount
  | SendText jsstring fresh fresh
  | SendAudio blob jsstring fresh fresh
  | SendImage blob jsstring jsstring fresh fresh
  | PlayText jsstring "jsstring option"
  | Settle nat Settled fresh
  | ToggleMute
  | StopAudio
  | ClearConversation
  | Ended
  | HandleSendMessage jsstring fresh fresh
  | HandleStartRecording
  | HandleSendImage "jsstring option" jsstring

definition without :: "nat \<Rightarrow> 'a list \<Rightarrow> 'a list" where
  "without i xs = take i xs @ drop (Suc i) xs"

definition settle :: "nat \<Rightarrow> Settled \<Rightarrow> fresh \<Rightarrow> ChatProvider \<Rightarrow> ChatProvider" where
  "settle i outcome f w =
     (if i < length (pending w) then
        (case resume (pending w ! i) outcome f (w\<lparr>pending := without i (pending w)\<rparr>) of
           None \<Rightarrow> w
         | Some w' \<Rightarrow> w')
      else w)"

fun step :: "Event \<Rightarrow> ChatProvider \<Rightarrow> ChatProvider" where
  "step Mount w = mount w"
| "step (SendText txt fu fa) w = sendTextMessage (render w) txt fu fa w"
| "step (SendAudio audioBlob url fu fa) w = sendAudioMessage (render w) audioBlob url fu fa w"
| "step (SendImage imageBlob prompt url fu fa) w =
     sendImageMessage (render w) imageBlob prompt url fu fa w"
| "step (PlayText txt messageId) w = playTextAsAudio (render w) Direct txt messageId w"
| "step (Settle i outcome f) w = settle i outcome f w"
| "step ToggleMute w = toggleMute (render w) w"
| "step StopAudio w = stopAudio (render w) w"
| "step ClearConversation w = clearConversation (render w) w"
| "step Ended w = ended w"
| "step (HandleSendMessage message fu fa) w = handleSendMessage message fu fa w"
| "step HandleStartRecording w = handleStartRecording w"
| "step (HandleSendImage capturedImage imagePrompt) w =
     handleSendImage_start capturedImage imagePrompt w"

definition run :: "Event list \<Rightarrow> ChatProvider \<Rightarrow> ChatProvider" where
  "run es w = fold step es w"


section \<open>Vocabulary of the properties\<close>

text \<open>
  The flag \<open>audioPlaying\<close> is only ever set by the \<open>onplay\<close> handler of an existing audio
  element: without an element nothing is playing.
\<close>

definition audio_consistent :: "ChatProvider \<Rightarrow> bool" where
  "audio_consistent w = (case audioElement w of None \<Rightarrow> \<not> audioPlaying w | Some a \<Rightarrow> True)"

text \<open>
  The events that deliver a conversation id: a suspended call settles with the response of
  the chat service or of the vision service.
\<close>

fun delivers_token :: "Event \<Rightarrow> bool" where
  "delivers_token (Settle i (ChatResponse reply cid) f) = True"
| "delivers_token (Settle i (ImageAnalysisResponse analysis cid) f) = True"
| "delivers_token e = False"


section \<open>Blank strings\<close>

lemma trim_empty_iff: "trim s = [] \<longleftrightarrow> list_all is_whitespace s"
proof
  assume "trim s = []"
  then have all_rest: "\<forall>c \<in> set (dropWhile is_whitespace s). is_whitespace c"
    by (simp add: trim_def)
  have "dropWhile is_whitespace s = []"
  proof (rule ccontr)
    assume ne: "dropWhile is_whitespace s \<noteq> []"
    then have "\<not> is_whitespace (hd (dropWhile is_whitespace s))"
      by (rule hd_dropWhile)
    moreover from ne have "hd (dropWhile is_whitespace s) \<in> set (dropWhile is_whitespace s)"
      by (rule hd_in_set)
    ultimately show False using all_rest by blast
  qed
  then show "list_all is_whitespace s"
    by (simp add: list_all_iff)
next
  assume "list_all is_whitespace s"
  then have "dropWhile is_whitespace s = []"
    by (simp add: list_all_iff)
  then show "trim s = []"
    by (simp add: trim_def del: dropWhile_eq_Nil_conv)
qed

lemmas blank_defs = is_whitespace_def whitespace_units_def
lemmas audio_defs = pause_def assign_src_def play_def ended_def mount_def
lemmas message_defs = addMessage_def updateMessage_def updateIfId_def
lemmas call_defs = stopAudio_def toggleMute_def returned_def playTextAsAudio_def
  sendTextMessage_def sendAudioMessage_def sendImageMessage_def clearConversation_def
  generated_def caught_def handleSendMessage_def handleSendImage_def handleSendImage_start_def
  handleStartRecording_def
lemmas request_defs = sendMessage_def transcribeAudio_def synthesizeSpeech_def analyzeImage_def
  or_undefined_def truthy_def
lemmas session_defs = run_def init_def render_def settle_def without_def no_updates_def
lemmas eval_defs = session_defs blank_defs trim_def call_defs message_defs request_defs audio_defs
  spread_def Let_def

text \<open>Unfolding a run, and what a clear leaves of the provider.\<close>

lemma run_Cons: "run (e # es) w = run es (step e w)"
  by (simp add: run_def)

lemma clear_frame:
  "messages (step ClearConversation w) = []" "conversationId (step ClearConversation w) = None"
  "sent (step ClearConversation w) = sent w" "pending (step ClearConversation w) = pending w"
  by (simp_all add: clearConversation_def stopAudio_def pause_def split: option.splits)

text \<open>
  \<open>handleSendImage\<close> as one step is \<open>handleSendImage\<close> up to its \<open>await\<close>, followed at once
  by the settling of the fetch.
\<close>

lemma handleSendImage_in_two_steps:
  "handleSendImage capturedImage imagePrompt (Some imageBlob) url fu fa w
     = settle (length (pending w)) (Fetched imageBlob url fu) fa
         (step (HandleSendImage capturedImage imagePrompt) w)"
  "handleSendImage capturedImage imagePrompt None url fu fa w
     = settle (length (pending w)) Rejected fa (step (HandleSendImage capturedImage imagePrompt) w)"
  by (simp_all add: handleSendImage_def handleSendImage_start_def settle_def without_def)

text \<open>
  C10: for every input that is empty or consists of white space only, \<open>sendTextMessage\<close>
  returns at once and changes nothing: the provider's state (messages, busy flag,
  conversation id), the suspended calls and the requests sent are what they were.
\<close>

theorem blank_text_is_noop:
  "list_all is_whitespace input \<Longrightarrow>
     sendTextMessage r input fu fa w = w \<and> step (SendText input fu fa) w = w"
  by (simp add: sendTextMessage_def trim_empty_iff)

theorem blank_text_is_noop_witness:
  "list_all is_whitespace [0x20, 0x9, 0x3000] \<and>
   step (SendText [0x20, 0x9, 0x3000] ([0x31], 1) ([0x32], 2)) init = init \<and>
   list_all is_whitespace [] \<and>
   step (SendText [] ([0x31], 1) ([0x32], 2)) init = init"
  using blank_text_is_noop [of "[0x20, 0x9, 0x3000]" "render init" "([0x31], 1)" "([0x32], 2)" init]
    blank_text_is_noop [of "[]" "render init" "([0x31], 1)" "([0x32], 2)" init]
  by (simp add: blank_defs)


section \<open>The order and the ids of the messages\<close>

lemma id_spread: "new_id updates = None \<Longrightarrow> id_msg (spread msg updates) = id_msg msg"
  by (simp add: spread_def)

lemma ids_updateMessage:
  "new_id updates = None \<Longrightarrow>
     map id_msg (messages (updateMessage i updates w)) = map id_msg (messages w)"
  by (simp add: updateMessage_def id_spread)

lemma ids_updateIfId:
  "new_id updates = None \<Longrightarrow>
     map id_msg (messages (updateIfId m updates w)) = map id_msg (messages w)"
  by (simp add: updateIfId_def ids_updateMessage split: option.splits)

lemma messages_audio [simp]:
  "messages (pause w) = messages w" "messages (assign_src u w) = messages w"
  "messages (play b w) = messages w" "messages (ended w) = messages w"
  "messages (mount w) = messages w"
  by (simp_all add: audio_defs split: option.splits)

lemma messages_stopAudio [simp]: "messages (stopAudio r w) = messages w"
  by (simp add: stopAudio_def)

lemma messages_toggleMute [simp]: "messages (toggleMute r w) = messages w"
  by (simp add: toggleMute_def Let_def)

lemma messages_returned [simp]: "messages (returned k w) = messages w"
  by (simp add: returned_def split: Caller.splits)

lemma ids_playTextAsAudio:
  "map id_msg (messages (playTextAsAudio r k t m w)) = map id_msg (messages w)"
  by (simp add: playTextAsAudio_def Let_def ids_updateIfId no_updates_def)

lemma ids_generated:
  "map id_msg (messages (generated r l reply c w)) = map id_msg (messages w)"
  by (simp add: generated_def ids_playTextAsAudio ids_updateMessage no_updates_def)

lemma ids_caught:
  "map id_msg (messages (caught f a w)) = map id_msg (messages w) @ [fst f]"
  by (simp add: caught_def addMessage_def)

lemma ids_resume:
  "resume t out f w = Some w' \<Longrightarrow>
     \<exists>new. map id_msg (messages w') = map id_msg (messages w) @ new"
  by (cases t; cases out)
     (auto simp: ids_generated ids_caught ids_updateMessage ids_updateIfId no_updates_def Let_def
        sendAudioMessage_def sendImageMessage_def addMessage_def)

lemma ids_settle:
  "\<exists>new. map id_msg (messages (settle i out f w)) = map id_msg (messages w) @ new"
proof (cases "i < length (pending w)")
  case False
  then show ?thesis by (simp add: settle_def)
next
  case True
  show ?thesis
  proof (cases "resume (pending w ! i) out f (w\<lparr>pending := without i (pending w)\<rparr>)")
    case None
    with True show ?thesis by (simp add: settle_def)
  next
    case (Some w')
    from ids_resume [OF Some] obtain new where
      "map id_msg (messages w') = map id_msg (messages w) @ new" by auto
    with True Some show ?thesis by (simp add: settle_def)
  qed
qed

lemma ids_step:
  "e \<noteq> ClearConversation \<Longrightarrow>
     \<exists>new. map id_msg (messages (step e w)) = map id_msg (messages w) @ new"
proof (cases e)
  case (Settle i out f)
  then show ?thesis using ids_settle by simp
qed (auto simp: sendTextMessage_def sendAudioMessage_def sendImageMessage_def addMessage_def
       ids_playTextAsAudio handleSendMessage_def handleStartRecording_def
       handleSendImage_start_def Let_def)

lemma ids_run:
  "ClearConversation \<notin> set es \<Longrightarrow>
     \<exists>new. map id_msg (messages (run es w)) = map id_msg (messages w) @ new"
proof (induction es arbitrary: w)
  case Nil
  then show ?case by (simp add: run_def)
next
  case (Cons e es)
  then have "e \<noteq> ClearConversation" and rest: "ClearConversation \<notin> set es" by auto
  from ids_step [OF this(1)] obtain n1 where
    s1: "map id_msg (messages (step e w)) = map id_msg (messages w) @ n1" by blast
  from Cons.IH [OF rest] obtain n2 where
    "map id_msg (messages (run es (step e w))) = map id_msg (messages (step e w)) @ n2" by blast
  with s1 show ?case by (simp add: run_def)
qed

lemma ids_rejected:
  assumes "n < length (pending w)"
    and "pending w ! n \<in> {TextGenerate r l, AudioTranscribe r u l, AudioGenerate r l, ImageAnalyze r l}"
  shows "map id_msg (messages (settle n Rejected f w)) = map id_msg (messages w) @ [fst f]"
proof -
  from assms(2) obtain apology where
    "resume (pending w ! n) Rejected f (w\<lparr>pending := without n (pending w)\<rparr>)
       = Some (caught f apology (w\<lparr>pending := without n (pending w)\<rparr>))"
    by auto
  with assms(1) have "settle n Rejected f w = caught f apology (w\<lparr>pending := without n (pending w)\<rparr>)"
    by (simp add: settle_def)
  then show ?thesis by (simp add: ids_caught)
qed

lemma ids_two_dispatches:
  assumes "ClearConversation \<notin> set esa" and "ClearConversation \<notin> set esb"
  shows "\<exists>mid rest.
           map id_msg (messages (run esb (step (SendImage imageBlob prompt urlb fub fab)
             (run esa (step (SendAudio audioBlob url fu fa) w)))))
           = map id_msg (messages w) @ [fst fu, fst fa] @ mid @ [fst fub, fst fab] @ rest"
proof -
  let ?w1 = "step (SendAudio audioBlob url fu fa) w"
  let ?w2 = "run esa ?w1"
  let ?w3 = "step (SendImage imageBlob prompt urlb fub fab) ?w2"
  have a: "map id_msg (messages ?w1) = map id_msg (messages w) @ [fst fu, fst fa]"
    by (simp add: sendAudioMessage_def addMessage_def Let_def)
  from ids_run [OF assms(1), of ?w1] obtain mid where
    b: "map id_msg (messages ?w2) = map id_msg (messages ?w1) @ mid" by blast
  have c: "map id_msg (messages ?w3) = map id_msg (messages ?w2) @ [fst fub, fst fab]"
    by (simp add: sendImageMessage_def addMessage_def Let_def del: step.simps(3))
  from ids_run [OF assms(2), of ?w3] obtain rest where
    d: "map id_msg (messages (run esb ?w3)) = map id_msg (messages ?w3) @ rest" by blast
  have "map id_msg (messages (run esb ?w3))
          = map id_msg (messages w) @ [fst fu, fst fa] @ mid @ [fst fub, fst fab] @ rest"
    by (simp only: d c b a append_assoc)
  then show ?thesis by blast
qed

text \<open>
  An audio turn and an image turn in flight together, both rejected, from the initial state.
  The two runs have the same dispatch calls in the same order and differ only in which call
  settles first: the two apologies come in the order in which the calls settle, so that the
  views differ.
\<close>

theorem settle_order_counterexample:
  "map content (messages (run [SendAudio [7] [0x75] ([0x31], 1) ([0x32], 2),
                                  SendImage [8] [0x70] [0x76] ([0x33], 3) ([0x34], 4),
                                  Settle 0 Rejected ([0x35], 5),
                                  Settle 0 Rejected ([0x36], 6)] init))
     = [audio_message, transcribing_audio, [0x70], analyzing_image, sorry_audio, sorry_image]
   \<and> map content (messages (run [SendAudio [7] [0x75] ([0x31], 1) ([0x32], 2),
                                    SendImage [8] [0x70] [0x76] ([0x33], 3) ([0x34], 4),
                                    Settle 1 Rejected ([0x35], 5),
                                    Settle 0 Rejected ([0x36], 6)] init))
     = [audio_message, transcribing_audio, [0x70], analyzing_image, sorry_image, sorry_audio]
   \<and> sorry_audio \<noteq> sorry_image"
  by (simp add: eval_defs sorry_audio_def sorry_image_def ustr_def)

text \<open>
  C7, as the code has it: the message view is in append order, and a message is appended
  when \<open>addMessage\<close> is called. A dispatch appends its user message and its placeholder, in
  this order, at the time of the call; the messages of two dispatches therefore stand in the
  order of the calls, whatever settles before, between or after them. The apology of a turn
  that fails is appended when its failing call settles: apologies follow the order of
  completion. A patch is made in place: the view keeps its length, and at each position the
  message is merged with the updates if it has the given id and is left as it is otherwise; a
  patch that names no id (every patch of the source) leaves every id as it is. Over any
  sequence of events without a clear, the messages present at the start keep their positions
  and their ids.
\<close>

theorem messages_keep_append_order:
  "messages (addMessage f ro c l i a al w)
     = messages w @ [\<lparr>id_msg = fst f, role = ro, content = c, timestamp = snd f,
                      isLoading_msg = Some l, imageUrl = i, audioUrl = a, audioLoading = al\<rparr>]
   \<and> length (messages (updateMessage j updates w)) = length (messages w)
   \<and> (k < length (messages w) \<longrightarrow>
        messages (updateMessage j updates w) ! k
          = (if id_msg (messages w ! k) = j then spread (messages w ! k) updates
             else messages w ! k))
   \<and> (new_id updates = None \<longrightarrow>
        map id_msg (messages (updateMessage j updates w)) = map id_msg (messages w))
   \<and> (trim input \<noteq> [] \<longrightarrow>
        map id_msg (messages (step (SendText input fu fa) w))
          = map id_msg (messages w) @ [fst fu, fst fa])
   \<and> map id_msg (messages (step (SendAudio audioBlob url fu fa) w))
        = map id_msg (messages w) @ [fst fu, fst fa]
   \<and> map id_msg (messages (step (SendImage imageBlob prompt url fu fa) w))
        = map id_msg (messages w) @ [fst fu, fst fa]
   \<and> (ClearConversation \<notin> set es \<longrightarrow>
        take (length (messages w)) (map id_msg (messages (run es w))) = map id_msg (messages w))
   \<and> (ClearConversation \<notin> set esa \<and> ClearConversation \<notin> set esb \<longrightarrow>
        (\<exists>mid rest.
           map id_msg (messages (run esb (step (SendImage imageBlob prompt urlb fub fab)
             (run esa (step (SendAudio audioBlob url fu fa) w)))))
           = map id_msg (messages w) @ [fst fu, fst fa] @ mid @ [fst fub, fst fab] @ rest))
   \<and> (n < length (pending w) \<and>
        pending w ! n \<in> {TextGenerate r loadingId, AudioTranscribe r userId loadingId,
                           AudioGenerate r loadingId, ImageAnalyze r loadingId} \<longrightarrow>
        map id_msg (messages (settle n Rejected f' w)) = map id_msg (messages w) @ [fst f'])"
proof -
  have run_part:
    "take (length (messages w)) (map id_msg (messages (run es w))) = map id_msg (messages w)"
    if "ClearConversation \<notin> set es"
  proof -
    from ids_run [OF that] obtain new where
      "map id_msg (messages (run es w)) = map id_msg (messages w) @ new" by blast
    then show ?thesis by simp
  qed
  have single:
    "messages (addMessage f ro c l i a al w)
       = messages w @ [\<lparr>id_msg = fst f, role = ro, content = c, timestamp = snd f,
                      isLoading_msg = Some l, imageUrl = i, audioUrl = a, audioLoading = al\<rparr>]"
    "length (messages (updateMessage j updates w)) = length (messages w)"
    "k < length (messages w) \<longrightarrow>
        messages (updateMessage j updates w) ! k
          = (if id_msg (messages w ! k) = j then spread (messages w ! k) updates
             else messages w ! k)"
    "new_id updates = None \<longrightarrow>
        map id_msg (messages (updateMessage j updates w)) = map id_msg (messages w)"
    by (simp_all add: addMessage_def updateMessage_def id_spread)
  have dispatch:
    "trim input \<noteq> [] \<longrightarrow>
        map id_msg (messages (step (SendText input fu fa) w))
          = map id_msg (messages w) @ [fst fu, fst fa]"
    "map id_msg (messages (step (SendAudio audioBlob url fu fa) w))
        = map id_msg (messages w) @ [fst fu, fst fa]"
    "map id_msg (messages (step (SendImage imageBlob prompt url fu fa) w))
        = map id_msg (messages w) @ [fst fu, fst fa]"
    by (simp_all add: addMessage_def sendTextMessage_def sendAudioMessage_def
          sendImageMessage_def Let_def)
  show ?thesis
    using single dispatch run_part
      ids_two_dispatches [of esa esb imageBlob prompt urlb fub fab audioBlob url fu fa w]
      ids_rejected [of n w r loadingId userId f']
    by blast
qed

theorem messages_keep_append_order_witness:
  "1 < length (messages (step (SendText [0x61] ([0x31], 1) ([0x32], 2)) init))
   \<and> content (messages (updateMessage [0x32] (no_updates\<lparr>new_content := Some [0x78]\<rparr>)
        (step (SendText [0x61] ([0x31], 1) ([0x32], 2)) init)) ! 1) = [0x78]
   \<and> new_id (no_updates\<lparr>new_content := Some [0x78]\<rparr>) = None
   \<and> map id_msg (messages (updateMessage [0x32] (no_updates\<lparr>new_content := Some [0x78]\<rparr>)
        (step (SendText [0x61] ([0x31], 1) ([0x32], 2)) init))) = [[0x31], [0x32]]
   \<and> trim [0x62] \<noteq> []
   \<and> map id_msg (messages (step (SendText [0x62] ([0x33], 3) ([0x34], 4))
        (step (SendText [0x61] ([0x31], 1) ([0x32], 2)) init))) = [[0x31], [0x32], [0x33], [0x34]]
   \<and> ClearConversation \<notin> set [SendAudio [7] [0x75] ([0x33], 3) ([0x34], 4),
        Settle 0 Rejected ([0x35], 5), Settle 0 Rejected ([0x36], 6)]
   \<and> map id_msg (messages (run [SendAudio [7] [0x75] ([0x33], 3) ([0x34], 4),
        Settle 0 Rejected ([0x35], 5), Settle 0 Rejected ([0x36], 6)]
        (step (SendText [0x61] ([0x31], 1) ([0x32], 2)) init)))
      = [[0x31], [0x32], [0x33], [0x34], [0x35], [0x36]]
   \<and> ClearConversation \<notin> set [Settle 1 Rejected ([0x37], 7)]
   \<and> ClearConversation \<notin> set [Settle 0 Rejected ([0x38], 8)]
   \<and> map id_msg (messages (run [Settle 0 Rejected ([0x38], 8)]
        (step (SendImage [8] [0x70] [0x76] ([0x35], 5) ([0x36], 6))
          (run [Settle 1 Rejected ([0x37], 7)]
            (step (SendAudio [7] [0x75] ([0x33], 3) ([0x34], 4))
              (step (SendText [0x61] ([0x31], 1) ([0x32], 2)) init))))))
      = [[0x31], [0x32], [0x33], [0x34], [0x37], [0x35], [0x36], [0x38]]
   \<and> 0 < length (pending (step (SendText [0x61] ([0x31], 1) ([0x32], 2)) init))
   \<and> pending (step (SendText [0x61] ([0x31], 1) ([0x32], 2)) init) ! 0 = TextGenerate (render init) [0x32]
   \<and> map id_msg (messages (settle 0 Rejected ([0x39], 9)
        (step (SendText [0x61] ([0x31], 1) ([0x32], 2)) init))) = [[0x31], [0x32], [0x39]]"
  using messages_keep_append_order [where w = "step (SendText [0x61] ([0x31], 1) ([0x32], 2)) init"
      and k = 1 and j = "[0x32]" and updates = "no_updates\<lparr>new_content := Some [0x78]\<rparr>"
      and input = "[0x62]" and fu = "([0x33], 3)" and fa = "([0x34], 4)"
      and audioBlob = "[7]" and url = "[0x75]"
      and es = "[SendAudio [7] [0x75] ([0x33], 3) ([0x34], 4), Settle 0 Rejected ([0x35], 5),
                Settle 0 Rejected ([0x36], 6)]"
      and esa = "[Settle 1 Rejected ([0x37], 7)]" and esb = "[Settle 0 Rejected ([0x38], 8)]"
      and imageBlob = "[8]" and prompt = "[0x70]" and urlb = "[0x76]"
      and fub = "([0x35], 5)" and fab = "([0x36], 6)"
      and n = 0 and r = "render init" and loadingId = "[0x32]" and f' = "([0x39], 9)"]
  by (simp add: eval_defs)


section \<open>Settling a suspended call\<close>

lemma spread_audioLoading:
  "spread m (no_updates\<lparr>new_audioLoading := Some a\<rparr>) = m\<lparr>audioLoading := Some a\<rparr>"
  by (cases m) (simp add: spread_def no_updates_def)

lemma spread_audioUrl:
  "spread m (no_updates\<lparr>new_audioUrl := Some u, new_audioLoading := Some a\<rparr>)
     = m\<lparr>audioUrl := Some u, audioLoading := Some a\<rparr>"
  by (cases m) (simp add: spread_def no_updates_def)

lemma spread_content:
  "spread m (no_updates\<lparr>new_content := Some c\<rparr>) = m\<lparr>content := c\<rparr>"
  by (cases m) (simp add: spread_def no_updates_def)

lemma spread_reply:
  "spread m (no_updates\<lparr>new_content := Some c, new_isLoading := Some b, new_audioLoading := Some a\<rparr>)
     = m\<lparr>content := c, isLoading_msg := Some b, audioLoading := Some a\<rparr>"
  by (cases m) (simp add: spread_def no_updates_def)

lemmas spread_simps = spread_audioLoading spread_audioUrl spread_content spread_reply

lemma length_without: "n < length xs \<Longrightarrow> length (without n xs) = length xs - 1"
  by (simp add: without_def)

lemma nth_last_appended: "n < length xs \<Longrightarrow> (without n xs @ [x]) ! (length xs - 1) = x"
  using nth_append_length [of "without n xs" x] by (simp add: length_without)

lemma without_length_append: "without (length ys) (ys @ [x]) = ys"
  by (simp add: without_def)

lemma without_last_appended:
  "n < length xs \<Longrightarrow> without (length xs - 1) (without n xs @ [x]) = without n xs"
  by (metis length_without without_length_append)

lemma settle_at:
  "i < length (pending w) \<Longrightarrow> pending w ! i = t \<Longrightarrow>
     resume t out f (w\<lparr>pending := without i (pending w)\<rparr>) = Some w' \<Longrightarrow>
     settle i out f w = w'"
  by (simp add: settle_def)

lemma generated_unmuted:
  assumes "audioElement_r r" "\<not> isMuted_r r" "l \<noteq> []"
  shows "generated r l reply c w =
    w\<lparr>messages := map (\<lambda>m. if id_msg m = l
           then m\<lparr>content := reply, isLoading_msg := Some False, audioLoading := Some True\<rparr> else m) (messages w),
      conversationId := Some c,
      pending := pending w @ [Synthesize r Dispatch (Some l)],
      sent := sent w @ [SynthesizeRequest reply]\<rparr>"
  using assms
  by (simp add: generated_def playTextAsAudio_def updateIfId_def updateMessage_def Let_def
        spread_simps synthesizeSpeech_def o_def cong: if_cong)

text \<open>
  C9: a failing speech synthesis is not fatal. Take a dispatch made while the audio element
  exists and the session is not muted, suspended at its generation call (the \<open>n\<close>-th
  suspended call). When that call settles with a reply, the synthesis request is sent and
  its call is suspended last; when this call is then rejected, every message with the
  placeholder's id has the reply as content, is not loading, is not loading audio, and keeps
  its other fields; no message gets an audio URL (the placeholder was created without one),
  no message is appended, no further request is sent, and the busy flag is released.
\<close>

theorem synthesis_failure_is_not_fatal:
  assumes "audioElement_r r" and "\<not> isMuted_r r" and "loadingId \<noteq> []"
    and "n < length (pending w)"
    and "(pending w ! n, response) \<in>
           {(TextGenerate r loadingId, ChatResponse reply cid),
            (AudioGenerate r loadingId, ChatResponse reply cid),
            (ImageAnalyze r loadingId, ImageAnalysisResponse reply cid)}"
  shows "let w1 = settle n response f1 w;
             w2 = settle (length (pending w) - 1) Rejected f2 w1
         in pending w1 = without n (pending w) @ [Synthesize r Dispatch (Some loadingId)]
          \<and> sent w1 = sent w @ [SynthesizeRequest reply]
          \<and> messages w2 =
               map (\<lambda>m. if id_msg m = loadingId
                         then m\<lparr>content := reply, isLoading_msg := Some False,
                                audioLoading := Some False\<rparr>
                         else m) (messages w)
          \<and> map audioUrl (messages w2) = map audioUrl (messages w)
          \<and> \<not> isLoading w2
          \<and> pending w2 = without n (pending w)
          \<and> sent w2 = sent w1"
proof -
  let ?w0 = "w\<lparr>pending := without n (pending w)\<rparr>"
  let ?w1 = "settle n response f1 w"
  let ?k = "length (pending w) - 1"
  let ?w2 = "settle ?k Rejected f2 ?w1"
  from assms(5) have "resume (pending w ! n) response f1 ?w0 = Some (generated r loadingId reply cid ?w0)"
    by auto
  with assms(4) have w1: "?w1 = generated r loadingId reply cid ?w0"
    by (simp add: settle_def)
  note g = generated_unmuted [OF assms(1-3), of reply cid ?w0]
  have p1: "pending ?w1 = without n (pending w) @ [Synthesize r Dispatch (Some loadingId)]"
    and s1: "sent ?w1 = sent w @ [SynthesizeRequest reply]"
    by (simp_all add: w1 g)
  have last_index: "?k < length (pending ?w1)"
    using assms(4) by (simp add: p1 length_without)
  have at_last: "pending ?w1 ! ?k = Synthesize r Dispatch (Some loadingId)"
    unfolding p1 by (rule nth_last_appended [OF assms(4)])
  have rest: "without ?k (pending ?w1) = without n (pending w)"
    unfolding p1 by (rule without_last_appended [OF assms(4)])
  define v where "v = returned Dispatch
      (updateIfId (Some loadingId) (no_updates\<lparr>new_audioLoading := Some False\<rparr>)
         (?w1\<lparr>pending := without n (pending w)\<rparr>))"
  have w2: "?w2 = v"
    unfolding v_def by (rule settle_at [OF last_index at_last]) (unfold rest, simp)
  have mv: "messages v =
      map (\<lambda>m. if id_msg m = loadingId
                then m\<lparr>content := reply, isLoading_msg := Some False, audioLoading := Some False\<rparr>
                else m) (messages w)"
    unfolding v_def w1 g using assms(3)
    by (simp add: returned_def updateIfId_def updateMessage_def spread_simps o_def cong: if_cong)
  have ov: "\<not> isLoading v" "pending v = without n (pending w)" "sent v = sent ?w1"
    unfolding v_def using assms(3) by (simp_all add: returned_def updateIfId_def updateMessage_def)
  have m2: "messages ?w2 =
      map (\<lambda>m. if id_msg m = loadingId
                then m\<lparr>content := reply, isLoading_msg := Some False, audioLoading := Some False\<rparr>
                else m) (messages w)"
    by (simp only: w2 mv)
  have others: "\<not> isLoading ?w2" "pending ?w2 = without n (pending w)" "sent ?w2 = sent ?w1"
    by (simp_all only: w2 ov not_False_eq_True)
  have u2: "map audioUrl (messages ?w2) = map audioUrl (messages w)"
    unfolding m2 by (simp add: o_def cong: if_cong)
  show ?thesis
    unfolding Let_def using p1 s1 m2 u2 others by blast
qed

theorem synthesis_failure_is_not_fatal_witness:
  "audioElement_r (render (mount init)) \<and> \<not> isMuted_r (render (mount init)) \<and> [0x32] \<noteq> ([] :: jsstring)
   \<and> 0 < length (pending (run [Mount, SendText [0x68] ([0x31], 1) ([0x32], 2)] init))
   \<and> pending (run [Mount, SendText [0x68] ([0x31], 1) ([0x32], 2)] init) ! 0
        = TextGenerate (render (mount init)) [0x32]
   \<and> messages (run [Mount, SendText [0x68] ([0x31], 1) ([0x32], 2),
          Settle 0 (ChatResponse [0x72] [0x63]) ([0x33], 3), Settle 0 Rejected ([0x34], 4)] init)
      = [\<lparr>id_msg = [0x31], role = User, content = [0x68], timestamp = 1, isLoading_msg = Some False,
           imageUrl = None, audioUrl = None, audioLoading = None\<rparr>,
         \<lparr>id_msg = [0x32], role = Assistant, content = [0x72], timestamp = 2, isLoading_msg = Some False,
           imageUrl = None, audioUrl = None, audioLoading = Some False\<rparr>]
   \<and> \<not> isLoading (run [Mount, SendText [0x68] ([0x31], 1) ([0x32], 2),
          Settle 0 (ChatResponse [0x72] [0x63]) ([0x33], 3), Settle 0 Rejected ([0x34], 4)] init)"
proof -
  have hyps: "audioElement_r (render (mount init))" "\<not> isMuted_r (render (mount init))"
    "[0x32] \<noteq> ([] :: jsstring)"
    "0 < length (pending (run [Mount, SendText [0x68] ([0x31], 1) ([0x32], 2)] init))"
    "(pending (run [Mount, SendText [0x68] ([0x31], 1) ([0x32], 2)] init) ! 0, ChatResponse [0x72] [0x63])
       \<in> {(TextGenerate (render (mount init)) [0x32], ChatResponse [0x72] [0x63]),
           (AudioGenerate (render (mount init)) [0x32], ChatResponse [0x72] [0x63]),
           (ImageAnalyze (render (mount init)) [0x32], ImageAnalysisResponse [0x72] [0x63])}"
    by (simp_all add: session_defs blank_defs trim_def call_defs message_defs request_defs audio_defs)
  from synthesis_failure_is_not_fatal [OF hyps, of "([0x33], 3)" "([0x34], 4)"] hyps
  show ?thesis
    by (simp add: session_defs blank_defs trim_def call_defs message_defs request_defs audio_defs
          Let_def)
qed


section \<open>A generation call that fails\<close>

text \<open>
  A text turn whose chat call is rejected, from the initial state: the placeholder keeps its
  text and stays loading, and a third message with the apology is appended.
\<close>

theorem generation_failure_counterexample:
  "run [SendText [0x68] ([0x31], 1) ([0x32], 2), Settle 0 Rejected ([0x33], 3)] init
   = \<lparr>messages =
        [\<lparr>id_msg = [0x31], role = User, content = [0x68], timestamp = 1, isLoading_msg = Some False,
           imageUrl = None, audioUrl = None, audioLoading = None\<rparr>,
         \<lparr>id_msg = [0x32], role = Assistant, content = thinking, timestamp = 2,
           isLoading_msg = Some True, imageUrl = None, audioUrl = None, audioLoading = Some False\<rparr>,
         \<lparr>id_msg = [0x33], role = Assistant, content = sorry_request, timestamp = 3,
           isLoading_msg = Some False, imageUrl = None, audioUrl = None, audioLoading = None\<rparr>],
      conversationId = None, isLoading = False, audioElement = None, isMuted = False,
      audioPlaying = False, pending = [], sent = [ChatRequest [0x68] None]\<rparr>"
  by (simp add: eval_defs)

text \<open>
  C4, as the code has it: when the generation call of a turn (the chat call of a text or
  audio turn, the vision call of an image turn) is rejected, the \<open>catch\<close> block appends a new
  assistant message with the fixed apology of that dispatch, not loading, after all existing
  messages, which are left as they are (the placeholder is not patched); the \<open>finally\<close>
  block releases the busy flag; no request is sent and the call is no longer suspended.
\<close>

theorem generation_failure_appends_apology:
  assumes "n < length (pending w)"
    and "(pending w ! n, apology) \<in>
           {(TextGenerate r loadingId, sorry_request),
            (AudioGenerate r loadingId, sorry_audio),
            (ImageAnalyze r loadingId, sorry_image)}"
  shows "messages (settle n Rejected f w) =
           messages w @
             [\<lparr>id_msg = fst f, role = Assistant, content = apology, timestamp = snd f,
               isLoading_msg = Some False, imageUrl = None, audioUrl = None, audioLoading = None\<rparr>]
       \<and> \<not> isLoading (settle n Rejected f w)
       \<and> sent (settle n Rejected f w) = sent w
       \<and> pending (settle n Rejected f w) = without n (pending w)"
proof -
  from assms(2) have
    "resume (pending w ! n) Rejected f (w\<lparr>pending := without n (pending w)\<rparr>)
       = Some (caught f apology (w\<lparr>pending := without n (pending w)\<rparr>))"
    by auto
  with assms(1) have "settle n Rejected f w = caught f apology (w\<lparr>pending := without n (pending w)\<rparr>)"
    by (simp add: settle_def)
  then show ?thesis
    by (simp add: caught_def addMessage_def)
qed

theorem generation_failure_appends_apology_witness:
  "0 < length (pending (step (SendText [0x68] ([0x31], 1) ([0x32], 2)) init))
   \<and> pending (step (SendText [0x68] ([0x31], 1) ([0x32], 2)) init) ! 0 = TextGenerate (render init) [0x32]
   \<and> messages (settle 0 Rejected ([0x33], 3) (step (SendText [0x68] ([0x31], 1) ([0x32], 2)) init))
      = messages (step (SendText [0x68] ([0x31], 1) ([0x32], 2)) init) @
          [\<lparr>id_msg = [0x33], role = Assistant, content = sorry_request, timestamp = 3,
            isLoading_msg = Some False, imageUrl = None, audioUrl = None, audioLoading = None\<rparr>]
   \<and> \<not> isLoading (settle 0 Rejected ([0x33], 3) (step (SendText [0x68] ([0x31], 1) ([0x32], 2)) init))"
proof -
  have hyps: "0 < length (pending (step (SendText [0x68] ([0x31], 1) ([0x32], 2)) init))"
    "(pending (step (SendText [0x68] ([0x31], 1) ([0x32], 2)) init) ! 0, sorry_request) \<in>
           {(TextGenerate (render init) [0x32], sorry_request),
            (AudioGenerate (render init) [0x32], sorry_audio),
            (ImageAnalyze (render init) [0x32], sorry_image)}"
    by (simp_all add: eval_defs)
  from generation_failure_appends_apology [OF hyps, of "([0x33], 3)"] hyps(1)
  show ?thesis
    by (simp add: eval_defs)
qed


section \<open>An empty transcription\<close>

text \<open>
  An audio turn whose transcription is the empty string, from the initial state: the chat
  request is sent with the empty message, the turn stays in flight and no apology appears.
\<close>

theorem empty_transcription_counterexample:
  "run [SendAudio [7] [0x75] ([0x31], 1) ([0x32], 2), Settle 0 (TranscriptionResponse []) ([0x33], 3)] init
   = \<lparr>messages =
        [\<lparr>id_msg = [0x31], role = User, content = [], timestamp = 1, isLoading_msg = Some False,
           imageUrl = None, audioUrl = Some [0x75], audioLoading = None\<rparr>,
         \<lparr>id_msg = [0x32], role = Assistant, content = transcribing_audio, timestamp = 2,
           isLoading_msg = Some True, imageUrl = None, audioUrl = None, audioLoading = None\<rparr>],
      conversationId = None, isLoading = True, audioElement = None, isMuted = False,
      audioPlaying = False, pending = [AudioGenerate (render init) [0x32]],
      sent = [TranscribeRequest [7], ChatRequest [] None]\<rparr>"
  by (simp add: eval_defs)

text \<open>
  C2, as the code has it: whatever text the transcription call returns, the empty string
  included, \<open>sendAudioMessage\<close> patches the user message with it and sends it to the chat
  service with the conversation id of its closure; the turn goes on, suspended at the chat
  call. Only a rejected transcription call ends the turn without a chat request: the apology
  for audio is appended and the busy flag is released.
\<close>

theorem transcription_is_forwarded_as_it_is:
  assumes "n < length (pending w)"
    and "pending w ! n = AudioTranscribe r userId loadingId"
  shows "sent (settle n (TranscriptionResponse transcription) f w)
           = sent w @ [ChatRequest transcription (conversationId_r r)]
       \<and> messages (settle n (TranscriptionResponse transcription) f w)
           = map (\<lambda>m. if id_msg m = userId then m\<lparr>content := transcription\<rparr> else m) (messages w)
       \<and> pending (settle n (TranscriptionResponse transcription) f w)
           = without n (pending w) @ [AudioGenerate r loadingId]
       \<and> isLoading (settle n (TranscriptionResponse transcription) f w) = isLoading w
       \<and> sent (settle n Rejected f w) = sent w
       \<and> messages (settle n Rejected f w)
           = messages w @
               [\<lparr>id_msg = fst f, role = Assistant, content = sorry_audio, timestamp = snd f,
                 isLoading_msg = Some False, imageUrl = None, audioUrl = None, audioLoading = None\<rparr>]
       \<and> pending (settle n Rejected f w) = without n (pending w)
       \<and> \<not> isLoading (settle n Rejected f w)"
  using assms
  by (simp add: settle_def Let_def updateMessage_def spread_content sendMessage_def caught_def
        addMessage_def cong: if_cong)

theorem transcription_is_forwarded_as_it_is_witness:
  "0 < length (pending (step (SendAudio [7] [0x75] ([0x31], 1) ([0x32], 2)) init))
   \<and> pending (step (SendAudio [7] [0x75] ([0x31], 1) ([0x32], 2)) init) ! 0
        = AudioTranscribe (render init) [0x31] [0x32]
   \<and> sent (settle 0 (TranscriptionResponse []) ([0x33], 3)
        (step (SendAudio [7] [0x75] ([0x31], 1) ([0x32], 2)) init))
      = [TranscribeRequest [7], ChatRequest [] None]
   \<and> sent (settle 0 Rejected ([0x33], 3) (step (SendAudio [7] [0x75] ([0x31], 1) ([0x32], 2)) init))
      = [TranscribeRequest [7]]"
proof -
  have hyps: "0 < length (pending (step (SendAudio [7] [0x75] ([0x31], 1) ([0x32], 2)) init))"
    "pending (step (SendAudio [7] [0x75] ([0x31], 1) ([0x32], 2)) init) ! 0
        = AudioTranscribe (render init) [0x31] [0x32]"
    by (simp_all add: eval_defs)
  from transcription_is_forwarded_as_it_is [OF hyps, of "[]" "([0x33], 3)"] hyps
  show ?thesis
    by (simp add: eval_defs)
qed


section \<open>A dispatch while a turn is in flight\<close>

text \<open>
  Two text dispatches in a row from the initial state: after the first the busy flag is set
  and its chat call is suspended; the second appends its two messages and sends its own
  request all the same.
\<close>

theorem busy_dispatch_counterexample:
  "isLoading (step (SendText [0x61] ([0x31], 1) ([0x32], 2)) init)
   \<and> pending (step (SendText [0x61] ([0x31], 1) ([0x32], 2)) init) = [TextGenerate (render init) [0x32]]
   \<and> run [SendText [0x61] ([0x31], 1) ([0x32], 2), SendText [0x62] ([0x33], 3) ([0x34], 4)] init
     = \<lparr>messages =
          [\<lparr>id_msg = [0x31], role = User, content = [0x61], timestamp = 1, isLoading_msg = Some False,
             imageUrl = None, audioUrl = None, audioLoading = None\<rparr>,
           \<lparr>id_msg = [0x32], role = Assistant, content = thinking, timestamp = 2,
             isLoading_msg = Some True, imageUrl = None, audioUrl = None, audioLoading = Some False\<rparr>,
           \<lparr>id_msg = [0x33], role = User, content = [0x62], timestamp = 3, isLoading_msg = Some False,
             imageUrl = None, audioUrl = None, audioLoading = None\<rparr>,
           \<lparr>id_msg = [0x34], role = Assistant, content = thinking, timestamp = 4,
             isLoading_msg = Some True, imageUrl = None, audioUrl = None, audioLoading = Some False\<rparr>],
        conversationId = None, isLoading = True, audioElement = None, isMuted = False,
        audioPlaying = False,
        pending = [TextGenerate (render init) [0x32], TextGenerate (render init) [0x34]],
        sent = [ChatRequest [0x61] None, ChatRequest [0x62] None]\<rparr>"
  by (simp add: eval_defs)

text \<open>
  C1, as the code has it: the busy flag is checked by the caller. While \<open>isLoading\<close> is
  set, \<open>handleSendMessage\<close> of the input component does nothing. The dispatch functions of
  the context do not read the flag: called while it is set, \<open>sendTextMessage\<close> (for a text
  that is not blank), \<open>sendAudioMessage\<close> and \<open>sendImageMessage\<close> append their user message
  and their placeholder, send their request and suspend at its call.
\<close>

theorem busy_flag_is_checked_by_the_input_component:
  assumes "isLoading w"
  shows "handleSendMessage message fu fa w = w
    \<and> map role (messages (sendTextMessage r input fu fa w))
        = map role (messages w) @ (if trim input = [] then [] else [User, Assistant])
    \<and> sent (sendTextMessage r input fu fa w)
        = sent w @ (if trim input = [] then [] else [ChatRequest input (conversationId_r r)])
    \<and> pending (sendTextMessage r input fu fa w)
        = pending w @ (if trim input = [] then [] else [TextGenerate r (fst fa)])
    \<and> map role (messages (sendAudioMessage r audioBlob url fu fa w)) = map role (messages w) @ [User, Assistant]
    \<and> sent (sendAudioMessage r audioBlob url fu fa w) = sent w @ [TranscribeRequest audioBlob]
    \<and> pending (sendAudioMessage r audioBlob url fu fa w)
        = pending w @ [AudioTranscribe r (fst fu) (fst fa)]
    \<and> map role (messages (sendImageMessage r imageBlob prompt url fu fa w))
        = map role (messages w) @ [User, Assistant]
    \<and> sent (sendImageMessage r imageBlob prompt url fu fa w)
        = sent w @ [AnalyzeRequest imageBlob prompt (or_undefined (conversationId_r r))]
    \<and> pending (sendImageMessage r imageBlob prompt url fu fa w) = pending w @ [ImageAnalyze r (fst fa)]"
  using assms
  by (simp add: handleSendMessage_def sendTextMessage_def sendAudioMessage_def sendImageMessage_def
        addMessage_def request_defs Let_def)

theorem busy_flag_is_checked_by_the_input_component_witness:
  "isLoading (step (SendText [0x61] ([0x31], 1) ([0x32], 2)) init)
   \<and> handleSendMessage [0x62] ([0x33], 3) ([0x34], 4) (step (SendText [0x61] ([0x31], 1) ([0x32], 2)) init)
       = step (SendText [0x61] ([0x31], 1) ([0x32], 2)) init
   \<and> sent (sendTextMessage (render init) [0x62] ([0x33], 3) ([0x34], 4)
         (step (SendText [0x61] ([0x31], 1) ([0x32], 2)) init))
       = [ChatRequest [0x61] None, ChatRequest [0x62] None]"
proof -
  have busy: "isLoading (step (SendText [0x61] ([0x31], 1) ([0x32], 2)) init)"
    by (simp add: eval_defs)
  from busy_flag_is_checked_by_the_input_component [OF busy, of "[0x62]" "([0x33], 3)" "([0x34], 4)"
      "render init" "[0x62]"] busy
  show ?thesis
    by (simp add: eval_defs)
qed


section \<open>An image dispatch with a blank prompt\<close>

text \<open>
  \<open>sendImageMessage\<close> with the empty prompt, from the initial state: the busy flag is set,
  two messages are appended and the vision request is sent.
\<close>

theorem blank_prompt_counterexample:
  "step (SendImage [7] [] [0x75] ([0x31], 1) ([0x32], 2)) init
     = \<lparr>messages =
          [\<lparr>id_msg = [0x31], role = User, content = [], timestamp = 1, isLoading_msg = Some False,
             imageUrl = Some [0x75], audioUrl = None, audioLoading = None\<rparr>,
           \<lparr>id_msg = [0x32], role = Assistant, content = analyzing_image, timestamp = 2,
             isLoading_msg = Some True, imageUrl = None, audioUrl = None, audioLoading = None\<rparr>],
        conversationId = None, isLoading = True, audioElement = None, isMuted = False,
        audioPlaying = False, pending = [ImageAnalyze (render init) [0x32]],
        sent = [AnalyzeRequest [7] [] None]\<rparr>"
  by (simp add: eval_defs)

text \<open>
  C3, as the code has it: the blank prompt is rejected by the caller. With a prompt that is
  empty or white space only, \<open>handleSendImage\<close> of the input component does nothing: no
  fetch, no call of \<open>sendImageMessage\<close>, the provider unchanged. \<open>sendImageMessage\<close> itself
  does not look at the prompt: it sets the busy flag, appends the user message with the
  prompt and the placeholder, and sends the vision request.
\<close>

theorem blank_prompt_is_rejected_by_the_input_component:
  assumes "list_all is_whitespace imagePrompt"
  shows "handleSendImage capturedImage imagePrompt fetched url fu fa w = w
    \<and> isLoading (sendImageMessage r imageBlob imagePrompt url fu fa w)
    \<and> messages (sendImageMessage r imageBlob imagePrompt url fu fa w)
        = messages w @
            [\<lparr>id_msg = fst fu, role = User, content = imagePrompt, timestamp = snd fu,
               isLoading_msg = Some False, imageUrl = Some url, audioUrl = None, audioLoading = None\<rparr>,
             \<lparr>id_msg = fst fa, role = Assistant, content = analyzing_image, timestamp = snd fa,
               isLoading_msg = Some True, imageUrl = None, audioUrl = None, audioLoading = None\<rparr>]
    \<and> sent (sendImageMessage r imageBlob imagePrompt url fu fa w)
        = sent w @ [AnalyzeRequest imageBlob imagePrompt (or_undefined (conversationId_r r))]"
  using assms
  by (simp add: handleSendImage_def trim_empty_iff sendImageMessage_def addMessage_def request_defs
        Let_def)

theorem blank_prompt_is_rejected_by_the_input_component_witness:
  "list_all is_whitespace [0x20, 0xA]
   \<and> handleSendImage (Some [0x64]) [0x20, 0xA] (Some [7]) [0x75] ([0x31], 1) ([0x32], 2) init = init
   \<and> sent (sendImageMessage (render init) [7] [0x20, 0xA] [0x75] ([0x31], 1) ([0x32], 2) init)
       = [AnalyzeRequest [7] [0x20, 0xA] None]"
proof -
  have blank: "list_all is_whitespace [0x20, 0xA]"
    by (simp add: blank_defs)
  from blank_prompt_is_rejected_by_the_input_component [OF blank, of "Some [0x64]" "Some [7]" "[0x75]"
      "([0x31], 1)" "([0x32], 2)" init "render init" "[7]"] blank
  show ?thesis
    by (simp add: eval_defs)
qed


section \<open>Muting\<close>

text \<open>
  What holds of muting. Muting while the audio plays stops it; a turn dispatched while the
  session is muted sends no synthesis request and plays nothing.
\<close>

lemma muting_stops_playback:
  assumes "\<not> isMuted w" and "audioPlaying w" and "audioElement w = Some a"
  shows "isMuted (step ToggleMute w)" and "\<not> audioPlaying (step ToggleMute w)"
    and "audioElement (step ToggleMute w) = Some (a\<lparr>paused := True\<rparr>)"
  using assms
  by (cases "paused a"; simp add: toggleMute_def stopAudio_def pause_def render_def Let_def)+

lemma muted_turn_is_silent:
  assumes "isMuted_r r"
  shows "sent (generated r l reply cid w) = sent w"
    and "pending (generated r l reply cid w) = pending w"
    and "audioElement (generated r l reply cid w) = audioElement w"
    and "audioPlaying (generated r l reply cid w) = audioPlaying w"
  using assms
  by (simp_all add: generated_def playTextAsAudio_def returned_def updateMessage_def)

text \<open>
  C5: after muting, no audio is played until the session is unmuted. The code breaks this
  for a turn that is in flight when the session is muted: \<open>playTextAsAudio\<close> tests the
  \<open>isMuted\<close> of its closure again after the synthesis call (``only play if not muted''),
  and that is still the value of the render in which the dispatch was made. Here a text is
  dispatched on an unmuted session, the reply arrives and synthesis is requested, the session
  is muted, and the synthesized audio arrives: it is played, on a muted session.
\<close>

theorem mute_during_a_turn_does_not_silence_it:
  "run [Mount, SendText [0x68] ([0x31], 1) ([0x32], 2),
        Settle 0 (ChatResponse [0x72] [0x63]) ([0x33], 3), ToggleMute,
        Settle 0 (SpeechUrl [0x75] True) ([0x34], 4)] init
     = \<lparr>messages =
          [\<lparr>id_msg = [0x31], role = User, content = [0x68], timestamp = 1, isLoading_msg = Some False,
             imageUrl = None, audioUrl = None, audioLoading = None\<rparr>,
           \<lparr>id_msg = [0x32], role = Assistant, content = [0x72], timestamp = 2,
             isLoading_msg = Some False, imageUrl = None, audioUrl = Some [0x75],
             audioLoading = Some False\<rparr>],
        conversationId = Some [0x63], isLoading = False,
        audioElement = Some \<lparr>src = [0x75], paused = False\<rparr>, isMuted = True,
        audioPlaying = True, pending = [],
        sent = [ChatRequest [0x68] None, SynthesizeRequest [0x72]]\<rparr>"
  by (simp add: eval_defs)


section \<open>The conversation id\<close>

lemma token_resume:
  "resume t out f w = Some w' \<Longrightarrow>
     (case out of ChatResponse reply cid \<Rightarrow> False | ImageAnalysisResponse analysis cid \<Rightarrow> False
        | _ \<Rightarrow> True) \<Longrightarrow>
     conversationId w' = conversationId w"
  by (cases t; cases out)
     (auto simp: returned_def updateIfId_def updateMessage_def caught_def addMessage_def play_def
        assign_src_def sendAudioMessage_def sendImageMessage_def Let_def
        split: option.splits Caller.splits if_splits)

lemma token_settle:
  assumes "\<not> delivers_token (Settle i out f)"
  shows "conversationId (settle i out f w) = conversationId w"
proof (cases "i < length (pending w)")
  case False
  then show ?thesis by (simp add: settle_def)
next
  case True
  show ?thesis
  proof (cases "resume (pending w ! i) out f (w\<lparr>pending := without i (pending w)\<rparr>)")
    case None
    with True show ?thesis by (simp add: settle_def)
  next
    case (Some w')
    from assms have "case out of ChatResponse reply cid \<Rightarrow> False
        | ImageAnalysisResponse analysis cid \<Rightarrow> False | _ \<Rightarrow> True"
      by (cases out) simp_all
    from token_resume [OF Some this] True Some show ?thesis by (simp add: settle_def)
  qed
qed

lemma token_step:
  assumes "\<not> delivers_token e" and "e \<noteq> ClearConversation"
  shows "conversationId (step e w) = conversationId w"
proof (cases e)
  case (Settle i out f)
  with assms(1) token_settle show ?thesis by simp
next
  case ClearConversation
  with assms(2) show ?thesis by simp
qed (simp_all add: eval_defs split: option.splits)

lemma token_run:
  "list_all (\<lambda>e. \<not> delivers_token e \<and> e \<noteq> ClearConversation) es \<Longrightarrow>
     conversationId (run es w) = conversationId w"
  by (induction es arbitrary: w) (simp_all add: run_Cons token_step, simp add: run_def)

lemma token_absent_step:
  assumes "\<not> delivers_token e" and "conversationId w = None"
  shows "conversationId (step e w) = None"
proof (cases "e = ClearConversation")
  case True
  with clear_frame(2) [of w] show ?thesis by (simp del: step.simps)
next
  case False
  with assms token_step show ?thesis by simp
qed

lemma token_absent_run:
  "list_all (\<lambda>e. \<not> delivers_token e) es \<Longrightarrow> conversationId w = None \<Longrightarrow>
     conversationId (run es w) = None"
  by (induction es arbitrary: w) (simp_all add: run_Cons token_absent_step, simp add: run_def)

lemma token_bound:
  assumes "n < length (pending w)"
    and "(pending w ! n, response) \<in>
           {(TextGenerate r l, ChatResponse reply cid),
            (AudioGenerate r l, ChatResponse reply cid),
            (ImageAnalyze r l, ImageAnalysisResponse reply cid)}"
  shows "conversationId (settle n response f w) = Some cid"
proof -
  let ?w0 = "w\<lparr>pending := without n (pending w)\<rparr>"
  from assms(2) have "resume (pending w ! n) response f ?w0 = Some (generated r l reply cid ?w0)"
    by auto
  with assms(1) have "settle n response f w = generated r l reply cid ?w0"
    by (simp add: settle_def)
  then show ?thesis
    by (simp add: generated_def playTextAsAudio_def returned_def updateIfId_def updateMessage_def
          Let_def split: Caller.splits)
qed

text \<open>
  The handlers of the input component that keep a dispatch function for later: the
  dispatch runs with the closure of the render in which the handler ran.
\<close>

lemma recorder_holds_its_closure:
  "\<not> isLoading w \<Longrightarrow> \<not> list_ex recording (pending w) \<Longrightarrow>
     pending (step HandleStartRecording w) = pending w @ [Recording (render w)]"
  by (simp add: handleStartRecording_def)

lemma onstop_dispatches_with_its_closure:
  assumes "k < length (pending later)" and "pending later ! k = Recording r" and "audioBlob \<noteq> []"
  shows "pending (settle k (Recorded audioBlob url fu) fa later)
           = without k (pending later) @ [AudioTranscribe r (fst fu) (fst fa)]"
    and "sent (settle k (Recorded audioBlob url fu) fa later) = sent later @ [TranscribeRequest audioBlob]"
  using assms by (simp_all add: settle_def sendAudioMessage_def addMessage_def transcribeAudio_def Let_def)

lemma image_fetch_dispatches_with_its_closure:
  assumes "k < length (pending later)" and "pending later ! k = ImageFetch r imagePrompt"
  shows "sent (settle k (Fetched imageBlob url fu) fa later)
           = sent later @ [AnalyzeRequest imageBlob imagePrompt
                             (if conversationId_r r = Some [] then None else conversationId_r r)]"
  using assms
  by (cases "conversationId_r r")
     (simp_all add: settle_def sendImageMessage_def addMessage_def request_defs Let_def)

text \<open>
  Two runs from the initial state. In the first an audio turn is dispatched, then a text
  turn whose reply binds the conversation id \<open>c\<close>; when the transcription of the audio turn
  arrives afterwards, its chat request carries no conversation id. In the second a reply
  binds the empty string as conversation id, and the vision request of the next image turn
  carries none.
\<close>

theorem stale_identity_counterexample:
  "conversationId (run [SendAudio [7] [0x75] ([0x31], 1) ([0x32], 2),
                        SendText [0x68] ([0x33], 3) ([0x34], 4),
                        Settle 1 (ChatResponse [0x72] [0x63]) ([0x35], 5)] init) = Some [0x63]
   \<and> sent (run [SendAudio [7] [0x75] ([0x31], 1) ([0x32], 2),
               SendText [0x68] ([0x33], 3) ([0x34], 4),
               Settle 1 (ChatResponse [0x72] [0x63]) ([0x35], 5),
               Settle 0 (TranscriptionResponse [0x74]) ([0x36], 6)] init)
       = [TranscribeRequest [7], ChatRequest [0x68] None, ChatRequest [0x74] None]
   \<and> conversationId (run [SendText [0x68] ([0x31], 1) ([0x32], 2),
                          Settle 0 (ChatResponse [0x72] []) ([0x33], 3)] init) = Some []
   \<and> sent (run [SendText [0x68] ([0x31], 1) ([0x32], 2),
               Settle 0 (ChatResponse [0x72] []) ([0x33], 3),
               SendImage [7] [0x70] [0x75] ([0x34], 4) ([0x35], 5)] init)
       = [ChatRequest [0x68] None, AnalyzeRequest [7] [0x70] None]"
  by (simp add: eval_defs)

text \<open>
  C6, as the code has it. The conversation id is absent as long as no response of the chat
  or vision service has arrived. Such a response binds the id it carries, whatever was bound
  before. No other event but a clear changes it, and a clear makes it absent. A dispatch
  sends, on its generation request, the conversation id of the closure of the function that
  is called, that is the id that was bound in the render that created this function: on the
  chat request of a text turn; on the vision request of an image turn, which leaves out an id
  that is the empty string; and on the chat request of an audio turn, which is sent when the
  transcription arrives. \<open>handleSendMessage\<close> calls the function of the current render, so a
  typed text carries the id that is bound when it is sent. The \<open>onstop\<close> handler of the
  recorder calls the function of the render in which the recording was started, and
  \<open>handleSendImage\<close> the function of the render in which Send was clicked: an audio or image
  turn carries the id that was bound then, whatever has been bound or cleared since.
\<close>

theorem identity_token_follows_the_dispatch:
  "(list_all (\<lambda>e. \<not> delivers_token e) es \<longrightarrow> conversationId (run es init) = None)
   \<and> (n < length (pending w) \<and>
        (pending w ! n, response) \<in>
           {(TextGenerate r l, ChatResponse reply cid),
            (AudioGenerate r l, ChatResponse reply cid),
            (ImageAnalyze r l, ImageAnalysisResponse reply cid)}
        \<longrightarrow> conversationId (settle n response f w) = Some cid)
   \<and> (list_all (\<lambda>e. \<not> delivers_token e \<and> e \<noteq> ClearConversation) es'
        \<longrightarrow> conversationId (run es' w) = conversationId w)
   \<and> conversationId (step ClearConversation w) = None
   \<and> sent (sendTextMessage c input fu fa w)
        = sent w @ (if trim input = [] then [] else [ChatRequest input (conversationId_r c)])
   \<and> sent (sendImageMessage c imageBlob prompt url fu fa w)
        = sent w @ [AnalyzeRequest imageBlob prompt
                      (if conversationId_r c = Some [] then None else conversationId_r c)]
   \<and> sent (sendAudioMessage c audioBlob url fu fa w) = sent w @ [TranscribeRequest audioBlob]
   \<and> pending (sendAudioMessage c audioBlob url fu fa w)
        = pending w @ [AudioTranscribe c (fst fu) (fst fa)]
   \<and> (k < length (pending later) \<and> pending later ! k = AudioTranscribe c userId loadingId
        \<longrightarrow> sent (settle k (TranscriptionResponse transcription) f' later)
              = sent later @ [ChatRequest transcription (conversationId_r c)])
   \<and> conversationId_r (render w) = conversationId w
   \<and> sent (step (HandleSendMessage message fu fa) w)
        = sent w @ (if trim message \<noteq> [] \<and> \<not> isLoading w
                    then [ChatRequest message (conversationId w)] else [])
   \<and> (\<not> isLoading w \<and> \<not> list_ex recording (pending w)
        \<longrightarrow> pending (step HandleStartRecording w) = pending w @ [Recording (render w)])
   \<and> (k < length (pending later) \<and> pending later ! k = Recording c \<and> audioBlob \<noteq> []
        \<longrightarrow> pending (settle k (Recorded audioBlob url fu) fa later)
              = without k (pending later) @ [AudioTranscribe c (fst fu) (fst fa)])
   \<and> (truthy capturedImage \<and> trim imagePrompt \<noteq> []
        \<longrightarrow> pending (step (HandleSendImage capturedImage imagePrompt) w)
              = pending w @ [ImageFetch (render w) imagePrompt])
   \<and> (k < length (pending later) \<and> pending later ! k = ImageFetch c imagePrompt
        \<longrightarrow> sent (settle k (Fetched imageBlob url fu) fa later)
              = sent later @ [AnalyzeRequest imageBlob imagePrompt
                                (if conversationId_r c = Some [] then None else conversationId_r c)])"
proof -
  have absent: "conversationId (run es init) = None" if "list_all (\<lambda>e. \<not> delivers_token e) es"
    using that by (rule token_absent_run) (simp add: init_def)
  have image: "sent (sendImageMessage c imageBlob prompt url fu fa w)
        = sent w @ [AnalyzeRequest imageBlob prompt
                      (if conversationId_r c = Some [] then None else conversationId_r c)]"
    by (cases "conversationId_r c")
       (simp_all add: sendImageMessage_def addMessage_def request_defs Let_def)
  have dispatch:
    "sent (sendTextMessage c input fu fa w)
        = sent w @ (if trim input = [] then [] else [ChatRequest input (conversationId_r c)])"
    "sent (sendAudioMessage c audioBlob url fu fa w) = sent w @ [TranscribeRequest audioBlob]"
    "pending (sendAudioMessage c audioBlob url fu fa w)
        = pending w @ [AudioTranscribe c (fst fu) (fst fa)]"
    "conversationId_r (render w) = conversationId w"
    "sent (step (HandleSendMessage message fu fa) w)
        = sent w @ (if trim message \<noteq> [] \<and> \<not> isLoading w
                    then [ChatRequest message (conversationId w)] else [])"
    by (simp_all add: handleSendMessage_def sendTextMessage_def sendAudioMessage_def addMessage_def
          request_defs render_def Let_def)
  have audio:
    "sent (settle k (TranscriptionResponse transcription) f' later)
       = sent later @ [ChatRequest transcription (conversationId_r c)]"
    if "k < length (pending later)" "pending later ! k = AudioTranscribe c userId loadingId"
    using that by (simp add: settle_def Let_def updateMessage_def sendMessage_def)
  have click: "pending (step (HandleSendImage capturedImage imagePrompt) w)
              = pending w @ [ImageFetch (render w) imagePrompt]"
    if "truthy capturedImage" "trim imagePrompt \<noteq> []"
    using that by (simp add: handleSendImage_start_def)
  show ?thesis
    using absent token_bound [of n w response r l reply cid f] token_run [of es' w]
      clear_frame(2) [of w] image dispatch audio
      recorder_holds_its_closure [of w]
      onstop_dispatches_with_its_closure(1) [of k later c audioBlob url fu fa]
      click
      image_fetch_dispatches_with_its_closure [of k later c imagePrompt imageBlob url fu fa]
    by blast
qed

theorem identity_token_follows_the_dispatch_witness:
  "list_all (\<lambda>e. \<not> delivers_token e)
      [SendText [0x68] ([0x31], 1) ([0x32], 2), Settle 0 Rejected ([0x33], 3)]
   \<and> conversationId (run [SendText [0x68] ([0x31], 1) ([0x32], 2), Settle 0 Rejected ([0x33], 3)] init)
       = None
   \<and> 0 < length (pending (step (SendText [0x68] ([0x31], 1) ([0x32], 2)) init))
   \<and> pending (step (SendText [0x68] ([0x31], 1) ([0x32], 2)) init) ! 0
       = TextGenerate (render init) [0x32]
   \<and> conversationId (settle 0 (ChatResponse [0x72] [0x63]) ([0x33], 3)
        (step (SendText [0x68] ([0x31], 1) ([0x32], 2)) init)) = Some [0x63]
   \<and> list_all (\<lambda>e. \<not> delivers_token e \<and> e \<noteq> ClearConversation) [ToggleMute, StopAudio]
   \<and> conversationId (run [ToggleMute, StopAudio] (run [SendText [0x68] ([0x31], 1) ([0x32], 2),
        Settle 0 (ChatResponse [0x72] [0x63]) ([0x33], 3)] init)) = Some [0x63]
   \<and> \<not> isLoading (run [SendText [0x68] ([0x31], 1) ([0x32], 2),
        Settle 0 (ChatResponse [0x72] [0x63]) ([0x33], 3)] init)
   \<and> \<not> list_ex recording (pending (run [SendText [0x68] ([0x31], 1) ([0x32], 2),
        Settle 0 (ChatResponse [0x72] [0x63]) ([0x33], 3)] init))
   \<and> 0 < length (pending (run [SendText [0x68] ([0x31], 1) ([0x32], 2),
        Settle 0 (ChatResponse [0x72] [0x63]) ([0x33], 3), HandleStartRecording,
        ClearConversation] init))
   \<and> pending (run [SendText [0x68] ([0x31], 1) ([0x32], 2),
        Settle 0 (ChatResponse [0x72] [0x63]) ([0x33], 3), HandleStartRecording,
        ClearConversation] init) ! 0
       = Recording (render (run [SendText [0x68] ([0x31], 1) ([0x32], 2),
           Settle 0 (ChatResponse [0x72] [0x63]) ([0x33], 3)] init))
   \<and> [7] \<noteq> ([] :: blob)
   \<and> 0 < length (pending (run [SendText [0x68] ([0x31], 1) ([0x32], 2),
        Settle 0 (ChatResponse [0x72] [0x63]) ([0x33], 3), HandleStartRecording,
        ClearConversation, Settle 0 (Recorded [7] [0x75] ([0x34], 4)) ([0x35], 5)] init))
   \<and> pending (run [SendText [0x68] ([0x31], 1) ([0x32], 2),
        Settle 0 (ChatResponse [0x72] [0x63]) ([0x33], 3), HandleStartRecording,
        ClearConversation, Settle 0 (Recorded [7] [0x75] ([0x34], 4)) ([0x35], 5)] init) ! 0
       = AudioTranscribe (render (run [SendText [0x68] ([0x31], 1) ([0x32], 2),
           Settle 0 (ChatResponse [0x72] [0x63]) ([0x33], 3)] init)) [0x34] [0x35]
   \<and> sent (run [SendText [0x68] ([0x31], 1) ([0x32], 2),
        Settle 0 (ChatResponse [0x72] [0x63]) ([0x33], 3), HandleStartRecording,
        ClearConversation, Settle 0 (Recorded [7] [0x75] ([0x34], 4)) ([0x35], 5),
        Settle 0 (TranscriptionResponse [0x74]) ([0x36], 6)] init)
       = [ChatRequest [0x68] None, TranscribeRequest [7], ChatRequest [0x74] (Some [0x63])]
   \<and> truthy (Some [0x64]) \<and> trim [0x70] \<noteq> []
   \<and> 0 < length (pending (run [SendText [0x68] ([0x31], 1) ([0x32], 2),
        Settle 0 (ChatResponse [0x72] [0x63]) ([0x33], 3), HandleSendImage (Some [0x64]) [0x70],
        ClearConversation] init))
   \<and> pending (run [SendText [0x68] ([0x31], 1) ([0x32], 2),
        Settle 0 (ChatResponse [0x72] [0x63]) ([0x33], 3), HandleSendImage (Some [0x64]) [0x70],
        ClearConversation] init) ! 0
       = ImageFetch (render (run [SendText [0x68] ([0x31], 1) ([0x32], 2),
           Settle 0 (ChatResponse [0x72] [0x63]) ([0x33], 3)] init)) [0x70]
   \<and> sent (run [SendText [0x68] ([0x31], 1) ([0x32], 2),
        Settle 0 (ChatResponse [0x72] [0x63]) ([0x33], 3), HandleSendImage (Some [0x64]) [0x70],
        ClearConversation, Settle 0 (Fetched [8] [0x76] ([0x34], 4)) ([0x35], 5)] init)
       = [ChatRequest [0x68] None, AnalyzeRequest [8] [0x70] (Some [0x63])]"
proof -
  let ?bound = "run [SendText [0x68] ([0x31], 1) ([0x32], 2),
                     Settle 0 (ChatResponse [0x72] [0x63]) ([0x33], 3)] init"
  note fresh_session = identity_token_follows_the_dispatch [where
      es = "[SendText [0x68] ([0x31], 1) ([0x32], 2), Settle 0 Rejected ([0x33], 3)]"
      and w = "step (SendText [0x68] ([0x31], 1) ([0x32], 2)) init" and n = 0
      and response = "ChatResponse [0x72] [0x63]" and r = "render init" and l = "[0x32]"
      and reply = "[0x72]" and cid = "[0x63]" and f = "([0x33], 3)"]
  note recorded = identity_token_follows_the_dispatch [where
      w = ?bound and es' = "[ToggleMute, StopAudio]" and c = "render ?bound"
      and later = "run [SendText [0x68] ([0x31], 1) ([0x32], 2),
             Settle 0 (ChatResponse [0x72] [0x63]) ([0x33], 3), HandleStartRecording,
             ClearConversation] init"
      and k = 0 and audioBlob = "[7]" and url = "[0x75]"
      and fu = "([0x34], 4)" and fa = "([0x35], 5)"]
  note transcribed = identity_token_follows_the_dispatch [where
      c = "render ?bound"
      and later = "run [SendText [0x68] ([0x31], 1) ([0x32], 2),
             Settle 0 (ChatResponse [0x72] [0x63]) ([0x33], 3), HandleStartRecording,
             ClearConversation, Settle 0 (Recorded [7] [0x75] ([0x34], 4)) ([0x35], 5)] init"
      and k = 0 and userId = "[0x34]" and loadingId = "[0x35]"
      and transcription = "[0x74]" and f' = "([0x36], 6)"]
  note fetched = identity_token_follows_the_dispatch [where
      w = ?bound and c = "render ?bound" and capturedImage = "Some [0x64]" and imagePrompt = "[0x70]"
      and later = "run [SendText [0x68] ([0x31], 1) ([0x32], 2),
             Settle 0 (ChatResponse [0x72] [0x63]) ([0x33], 3),
             HandleSendImage (Some [0x64]) [0x70], ClearConversation] init"
      and k = 0 and imageBlob = "[8]" and url = "[0x76]"
      and fu = "([0x34], 4)" and fa = "([0x35], 5)"]
  show ?thesis
    using fresh_session recorded transcribed fetched
    by (simp add: eval_defs)
qed


section \<open>Clearing the conversation\<close>

lemma audio_consistent_resume:
  "resume t out f w = Some w' \<Longrightarrow> audio_consistent w \<Longrightarrow> audio_consistent w'"
  by (cases t; cases out)
     (auto simp: audio_consistent_def generated_def playTextAsAudio_def returned_def updateIfId_def
        updateMessage_def caught_def addMessage_def play_def assign_src_def sendAudioMessage_def
        sendImageMessage_def Let_def
        split: option.splits Caller.splits if_splits)

lemma audio_consistent_settle: "audio_consistent w \<Longrightarrow> audio_consistent (settle i out f w)"
proof (cases "i < length (pending w)")
  case False
  assume "audio_consistent w"
  with False show ?thesis by (simp add: settle_def)
next
  case True
  assume ok: "audio_consistent w"
  then have ok': "audio_consistent (w\<lparr>pending := without i (pending w)\<rparr>)"
    by (simp add: audio_consistent_def split: option.splits)
  show ?thesis
  proof (cases "resume (pending w ! i) out f (w\<lparr>pending := without i (pending w)\<rparr>)")
    case None
    with True ok show ?thesis by (simp add: settle_def)
  next
    case (Some w')
    from audio_consistent_resume [OF Some ok'] True Some show ?thesis by (simp add: settle_def)
  qed
qed

lemma audio_consistent_step: "audio_consistent w \<Longrightarrow> audio_consistent (step e w)"
proof (cases e)
  case (Settle i out f)
  assume "audio_consistent w"
  then show ?thesis using Settle audio_consistent_settle by simp
qed (auto simp: audio_consistent_def eval_defs split: option.splits Caller.splits if_splits)

lemma audio_consistent_run: "audio_consistent w \<Longrightarrow> audio_consistent (run es w)"
  by (induction es arbitrary: w) (simp_all add: run_Cons audio_consistent_step, simp add: run_def)

lemma audio_consistent_reachable: "audio_consistent (run es init)"
  by (rule audio_consistent_run) (simp add: audio_consistent_def init_def)

lemma clear_stops_audio:
  assumes "audio_consistent w"
  shows "\<not> audioPlaying (step ClearConversation w)"
    and "case audioElement (step ClearConversation w) of None \<Rightarrow> True | Some a \<Rightarrow> paused a"
  using assms
  by (auto simp: audio_consistent_def clearConversation_def stopAudio_def render_def pause_def
        split: option.splits)

lemma first_turn_messages:
  assumes "messages c = []"
  shows "messages (sendTextMessage r input fu fa c) = messages (sendTextMessage r' input fu fa init)"
    and "messages (sendImageMessage r imageBlob prompt url fu fa c)
           = messages (sendImageMessage r' imageBlob prompt url fu fa init)"
    and "messages (sendAudioMessage r audioBlob url fu fa c)
           = messages (sendAudioMessage r' audioBlob url fu fa init)"
  using assms
  by (simp_all add: sendTextMessage_def sendImageMessage_def sendAudioMessage_def addMessage_def
        Let_def init_def)

lemma tokenless_dispatch:
  assumes "conversationId_r r = None"
  shows "sent (sendTextMessage r input fu fa c)
           = sent c @ (if trim input = [] then [] else [ChatRequest input None])"
    and "sent (sendImageMessage r imageBlob prompt url fu fa c)
           = sent c @ [AnalyzeRequest imageBlob prompt None]"
    and "sent (sendAudioMessage r audioBlob url fu fa c) = sent c @ [TranscribeRequest audioBlob]"
    and "pending (sendAudioMessage r audioBlob url fu fa c)
           = pending c @ [AudioTranscribe r (fst fu) (fst fa)]"
    and "k < length (pending later) \<and> pending later ! k = AudioTranscribe r userId loadingId
           \<longrightarrow> sent (settle k (TranscriptionResponse transcription) f later)
                 = sent later @ [ChatRequest transcription None]"
  using assms
  by (simp_all add: sendTextMessage_def sendImageMessage_def sendAudioMessage_def addMessage_def
        updateMessage_def settle_def request_defs Let_def)

text \<open>
  A text turn is in flight when the conversation is cleared, and its reply arrives after the
  clear: the reply binds its conversation id, and the next dispatch sends that id.
\<close>

theorem late_reply_after_clear_counterexample:
  "conversationId (run [SendText [0x68] ([0x31], 1) ([0x32], 2), ClearConversation] init) = None
   \<and> run [SendText [0x68] ([0x31], 1) ([0x32], 2), ClearConversation,
          Settle 0 (ChatResponse [0x72] [0x63]) ([0x33], 3),
          SendText [0x69] ([0x34], 4) ([0x35], 5)] init
     = \<lparr>messages =
          [\<lparr>id_msg = [0x34], role = User, content = [0x69], timestamp = 4, isLoading_msg = Some False,
             imageUrl = None, audioUrl = None, audioLoading = None\<rparr>,
           \<lparr>id_msg = [0x35], role = Assistant, content = thinking, timestamp = 5,
             isLoading_msg = Some True, imageUrl = None, audioUrl = None, audioLoading = Some False\<rparr>],
        conversationId = Some [0x63], isLoading = True, audioElement = None, isMuted = False,
        audioPlaying = False,
        pending = [TextGenerate \<lparr>conversationId_r = Some [0x63], isMuted_r = False,
                     audioElement_r = False, audioPlaying_r = False\<rparr> [0x35]],
        sent = [ChatRequest [0x68] None, ChatRequest [0x69] (Some [0x63])]\<rparr>"
  by (simp add: eval_defs)

text \<open>
  C8, as the code has it: \<open>clearConversation\<close> empties the message view and the conversation
  id, and in every state the session can reach it leaves nothing playing (the audio element,
  if there is one, is paused). The render that follows the clear, and every later render as
  long as no response of the chat or vision service has arrived, has no conversation id. A
  dispatch through a function of such a render sends no conversation id on its generation
  request: the chat request of a text, the vision request of an image, and the chat request
  that an audio turn sends once its transcription has arrived; made on the empty view, it
  appends the messages that the same dispatch appends in the initial state. A text typed
  directly after the clear, when no turn is in flight, is such a dispatch.
\<close>

theorem clear_resets_the_conversation:
  "messages (step ClearConversation w) = []
   \<and> conversationId (step ClearConversation w) = None
   \<and> \<not> audioPlaying (step ClearConversation (run es init))
   \<and> (case audioElement (step ClearConversation (run es init)) of
         None \<Rightarrow> True | Some a \<Rightarrow> paused a)
   \<and> (list_all (\<lambda>e. \<not> delivers_token e) es' \<longrightarrow>
        conversationId_r (render (run es' (step ClearConversation w))) = None)
   \<and> (conversationId_r r = None \<longrightarrow>
        sent (sendTextMessage r input fu fa c)
          = sent c @ (if trim input = [] then [] else [ChatRequest input None])
        \<and> sent (sendImageMessage r imageBlob prompt url fu fa c)
          = sent c @ [AnalyzeRequest imageBlob prompt None]
        \<and> sent (sendAudioMessage r audioBlob url fu fa c) = sent c @ [TranscribeRequest audioBlob]
        \<and> pending (sendAudioMessage r audioBlob url fu fa c)
          = pending c @ [AudioTranscribe r (fst fu) (fst fa)]
        \<and> (k < length (pending later) \<and> pending later ! k = AudioTranscribe r userId loadingId
             \<longrightarrow> sent (settle k (TranscriptionResponse transcription) f later)
                   = sent later @ [ChatRequest transcription None]))
   \<and> (messages c = [] \<longrightarrow>
        messages (sendTextMessage r input fu fa c) = messages (sendTextMessage r' input fu fa init)
        \<and> messages (sendImageMessage r imageBlob prompt url fu fa c)
          = messages (sendImageMessage r' imageBlob prompt url fu fa init)
        \<and> messages (sendAudioMessage r audioBlob url fu fa c)
          = messages (sendAudioMessage r' audioBlob url fu fa init))
   \<and> (\<not> isLoading w \<longrightarrow>
        messages (step (HandleSendMessage message fu fa) (step ClearConversation w))
          = messages (step (HandleSendMessage message fu fa) init)
        \<and> sent (step (HandleSendMessage message fu fa) (step ClearConversation w))
          = sent w @ (if trim message = [] then [] else [ChatRequest message None]))"
proof -
  note audio = clear_stops_audio [OF audio_consistent_reachable [of es]]
  have quiet: "conversationId_r (render (run es' (step ClearConversation w))) = None"
    if "list_all (\<lambda>e. \<not> delivers_token e) es'"
  proof -
    from that clear_frame(2) [of w]
    have "conversationId (run es' (step ClearConversation w)) = None"
      by (rule token_absent_run)
    then show ?thesis by (simp add: render_def)
  qed
  have busy: "isLoading (step ClearConversation w) = isLoading w"
    by (simp add: clearConversation_def stopAudio_def pause_def split: option.splits)
  have typed:
    "messages (step (HandleSendMessage message fu fa) (step ClearConversation w))
          = messages (step (HandleSendMessage message fu fa) init)"
    "sent (step (HandleSendMessage message fu fa) (step ClearConversation w))
          = sent w @ (if trim message = [] then [] else [ChatRequest message None])"
    if "\<not> isLoading w"
  proof -
    let ?c = "step ClearConversation w"
    from that busy have idle: "\<not> isLoading ?c" by simp
    have none: "conversationId_r (render ?c) = None"
      using clear_frame(2) [of w] by (simp add: render_def del: step.simps)
    have h: "step (HandleSendMessage message fu fa) ?c
               = (if trim message \<noteq> [] then sendTextMessage (render ?c) message fu fa ?c else ?c)"
      using idle by (simp add: handleSendMessage_def del: step.simps(9))
    have h0: "step (HandleSendMessage message fu fa) init
               = (if trim message \<noteq> [] then sendTextMessage (render init) message fu fa init else init)"
      by (simp add: handleSendMessage_def init_def)
    show "messages (step (HandleSendMessage message fu fa) ?c)
          = messages (step (HandleSendMessage message fu fa) init)"
      unfolding h h0
      using first_turn_messages(1) [OF clear_frame(1) [of w], of "render ?c" message fu fa "render init"]
        clear_frame(1) [of w]
      by (simp add: init_def del: step.simps)
    show "sent (step (HandleSendMessage message fu fa) ?c)
          = sent w @ (if trim message = [] then [] else [ChatRequest message None])"
      unfolding h
      using tokenless_dispatch(1) [OF none, of message fu fa ?c] clear_frame(3) [of w]
      by (simp del: step.simps)
  qed
  have quiet': "list_all (\<lambda>e. \<not> delivers_token e) es' \<longrightarrow>
        conversationId_r (render (run es' (step ClearConversation w))) = None"
    using quiet by blast
  have tokenless: "conversationId_r r = None \<longrightarrow>
        sent (sendTextMessage r input fu fa c)
          = sent c @ (if trim input = [] then [] else [ChatRequest input None])
        \<and> sent (sendImageMessage r imageBlob prompt url fu fa c)
          = sent c @ [AnalyzeRequest imageBlob prompt None]
        \<and> sent (sendAudioMessage r audioBlob url fu fa c) = sent c @ [TranscribeRequest audioBlob]
        \<and> pending (sendAudioMessage r audioBlob url fu fa c)
          = pending c @ [AudioTranscribe r (fst fu) (fst fa)]
        \<and> (k < length (pending later) \<and> pending later ! k = AudioTranscribe r userId loadingId
             \<longrightarrow> sent (settle k (TranscriptionResponse transcription) f later)
                   = sent later @ [ChatRequest transcription None])"
  proof
    assume none: "conversationId_r r = None"
    show "sent (sendTextMessage r input fu fa c)
          = sent c @ (if trim input = [] then [] else [ChatRequest input None])
        \<and> sent (sendImageMessage r imageBlob prompt url fu fa c)
          = sent c @ [AnalyzeRequest imageBlob prompt None]
        \<and> sent (sendAudioMessage r audioBlob url fu fa c) = sent c @ [TranscribeRequest audioBlob]
        \<and> pending (sendAudioMessage r audioBlob url fu fa c)
          = pending c @ [AudioTranscribe r (fst fu) (fst fa)]
        \<and> (k < length (pending later) \<and> pending later ! k = AudioTranscribe r userId loadingId
             \<longrightarrow> sent (settle k (TranscriptionResponse transcription) f later)
                   = sent later @ [ChatRequest transcription None])"
      by (intro conjI tokenless_dispatch [OF none])
  qed
  have first: "messages c = [] \<longrightarrow>
        messages (sendTextMessage r input fu fa c) = messages (sendTextMessage r' input fu fa init)
        \<and> messages (sendImageMessage r imageBlob prompt url fu fa c)
          = messages (sendImageMessage r' imageBlob prompt url fu fa init)
        \<and> messages (sendAudioMessage r audioBlob url fu fa c)
          = messages (sendAudioMessage r' audioBlob url fu fa init)"
  proof
    assume empty: "messages c = []"
    show "messages (sendTextMessage r input fu fa c) = messages (sendTextMessage r' input fu fa init)
        \<and> messages (sendImageMessage r imageBlob prompt url fu fa c)
          = messages (sendImageMessage r' imageBlob prompt url fu fa init)
        \<and> messages (sendAudioMessage r audioBlob url fu fa c)
          = messages (sendAudioMessage r' audioBlob url fu fa init)"
      by (intro conjI first_turn_messages [OF empty])
  qed
  have typed': "\<not> isLoading w \<longrightarrow>
        messages (step (HandleSendMessage message fu fa) (step ClearConversation w))
          = messages (step (HandleSendMessage message fu fa) init)
        \<and> sent (step (HandleSendMessage message fu fa) (step ClearConversation w))
          = sent w @ (if trim message = [] then [] else [ChatRequest message None])"
    using typed by blast
  show ?thesis
    by (intro conjI clear_frame(1,2) audio quiet' tokenless first typed')
qed

theorem clear_resets_the_conversation_witness:
  "audioPlaying (run [Mount, SendText [0x68] ([0x31], 1) ([0x32], 2),
       Settle 0 (ChatResponse [0x72] [0x63]) ([0x33], 3),
       Settle 0 (SpeechUrl [0x75] True) ([0x34], 4)] init)
   \<and> \<not> audioPlaying (run [Mount, SendText [0x68] ([0x31], 1) ([0x32], 2),
       Settle 0 (ChatResponse [0x72] [0x63]) ([0x33], 3),
       Settle 0 (SpeechUrl [0x75] True) ([0x34], 4), ClearConversation] init)
   \<and> audioElement (run [Mount, SendText [0x68] ([0x31], 1) ([0x32], 2),
       Settle 0 (ChatResponse [0x72] [0x63]) ([0x33], 3),
       Settle 0 (SpeechUrl [0x75] True) ([0x34], 4), ClearConversation] init)
       = Some \<lparr>src = [0x75], paused = True\<rparr>
   \<and> conversationId (run [Mount, SendText [0x68] ([0x31], 1) ([0x32], 2),
       Settle 0 (ChatResponse [0x72] [0x63]) ([0x33], 3),
       Settle 0 (SpeechUrl [0x75] True) ([0x34], 4)] init) = Some [0x63]
   \<and> list_all (\<lambda>e. \<not> delivers_token e) [ToggleMute, Ended]
   \<and> conversationId_r (render (run [Mount, SendText [0x68] ([0x31], 1) ([0x32], 2),
       Settle 0 (ChatResponse [0x72] [0x63]) ([0x33], 3),
       Settle 0 (SpeechUrl [0x75] True) ([0x34], 4), ClearConversation, ToggleMute, Ended] init))
       = None
   \<and> messages (run [Mount, SendText [0x68] ([0x31], 1) ([0x32], 2),
       Settle 0 (ChatResponse [0x72] [0x63]) ([0x33], 3),
       Settle 0 (SpeechUrl [0x75] True) ([0x34], 4), ClearConversation] init) = []
   \<and> messages (sendAudioMessage
        (render (run [Mount, SendText [0x68] ([0x31], 1) ([0x32], 2),
           Settle 0 (ChatResponse [0x72] [0x63]) ([0x33], 3),
           Settle 0 (SpeechUrl [0x75] True) ([0x34], 4), ClearConversation] init))
        [7] [0x76] ([0x35], 5) ([0x36], 6)
        (run [Mount, SendText [0x68] ([0x31], 1) ([0x32], 2),
           Settle 0 (ChatResponse [0x72] [0x63]) ([0x33], 3),
           Settle 0 (SpeechUrl [0x75] True) ([0x34], 4), ClearConversation] init))
       = messages (sendAudioMessage (render init) [7] [0x76] ([0x35], 5) ([0x36], 6) init)
   \<and> 0 < length (pending (run [Mount, SendText [0x68] ([0x31], 1) ([0x32], 2),
       Settle 0 (ChatResponse [0x72] [0x63]) ([0x33], 3),
       Settle 0 (SpeechUrl [0x75] True) ([0x34], 4), ClearConversation,
       SendAudio [7] [0x76] ([0x35], 5) ([0x36], 6)] init))
   \<and> pending (run [Mount, SendText [0x68] ([0x31], 1) ([0x32], 2),
       Settle 0 (ChatResponse [0x72] [0x63]) ([0x33], 3),
       Settle 0 (SpeechUrl [0x75] True) ([0x34], 4), ClearConversation,
       SendAudio [7] [0x76] ([0x35], 5) ([0x36], 6)] init) ! 0
       = AudioTranscribe (render (run [Mount, SendText [0x68] ([0x31], 1) ([0x32], 2),
           Settle 0 (ChatResponse [0x72] [0x63]) ([0x33], 3),
           Settle 0 (SpeechUrl [0x75] True) ([0x34], 4), ClearConversation] init)) [0x35] [0x36]
   \<and> sent (run [Mount, SendText [0x68] ([0x31], 1) ([0x32], 2),
       Settle 0 (ChatResponse [0x72] [0x63]) ([0x33], 3),
       Settle 0 (SpeechUrl [0x75] True) ([0x34], 4), ClearConversation,
       SendAudio [7] [0x76] ([0x35], 5) ([0x36], 6),
       Settle 0 (TranscriptionResponse [0x74]) ([0x37], 7)] init)
       = [ChatRequest [0x68] None, SynthesizeRequest [0x72], TranscribeRequest [7],
          ChatRequest [0x74] None]
   \<and> \<not> isLoading (run [Mount, SendText [0x68] ([0x31], 1) ([0x32], 2),
       Settle 0 (ChatResponse [0x72] [0x63]) ([0x33], 3),
       Settle 0 (SpeechUrl [0x75] True) ([0x34], 4)] init)
   \<and> sent (run [Mount, SendText [0x68] ([0x31], 1) ([0x32], 2),
       Settle 0 (ChatResponse [0x72] [0x63]) ([0x33], 3),
       Settle 0 (SpeechUrl [0x75] True) ([0x34], 4), ClearConversation,
       HandleSendMessage [0x69] ([0x35], 5) ([0x36], 6)] init)
       = [ChatRequest [0x68] None, SynthesizeRequest [0x72], ChatRequest [0x69] None]"
proof -
  let ?played = "run [Mount, SendText [0x68] ([0x31], 1) ([0x32], 2),
       Settle 0 (ChatResponse [0x72] [0x63]) ([0x33], 3),
       Settle 0 (SpeechUrl [0x75] True) ([0x34], 4)] init"
  note cleared = clear_resets_the_conversation [where w = ?played
      and es = "[Mount, SendText [0x68] ([0x31], 1) ([0x32], 2),
             Settle 0 (ChatResponse [0x72] [0x63]) ([0x33], 3),
             Settle 0 (SpeechUrl [0x75] True) ([0x34], 4)]"
      and es' = "[ToggleMute, Ended]"
      and r = "render (step ClearConversation ?played)" and c = "step ClearConversation ?played"
      and r' = "render init"
      and audioBlob = "[7]" and url = "[0x76]" and fu = "([0x35], 5)" and fa = "([0x36], 6)"
      and later = "step (SendAudio [7] [0x76] ([0x35], 5) ([0x36], 6)) (step ClearConversation ?played)"
      and k = 0 and userId = "[0x35]" and loadingId = "[0x36]"
      and transcription = "[0x74]" and f = "([0x37], 7)"
      and message = "[0x69]"]
  show ?thesis
    using cleared
    by (simp add: eval_defs)
qed

text \<open>
  A dispatch through a function that was created before the clear is not such a dispatch: a
  recording started when the id \<open>c\<close> was bound and stopped after the clear sends \<open>c\<close> on its
  chat request.
\<close>

lemma recording_started_before_clear:
  "sent (run [SendText [0x68] ([0x31], 1) ([0x32], 2),
              Settle 0 (ChatResponse [0x72] [0x63]) ([0x33], 3),
              HandleStartRecording, ClearConversation,
              Settle 0 (Recorded [7] [0x75] ([0x34], 4)) ([0x35], 5),
              Settle 0 (TranscriptionResponse [0x74]) ([0x36], 6)] init)
     = [ChatRequest [0x68] None, TranscribeRequest [7], ChatRequest [0x74] (Some [0x63])]"
  by (simp add: eval_defs)

end
